theory Spec2Isabelle
  imports Complex_Main
begin

section \<open>Tensor values\<close>

text \<open>
  The label encoder works on float tensors. The only floating-point facts the encoder
  itself relies on are the special values: \<open>tf.math.is_nan\<close> tests for NaN and
  \<open>tf.equal\<close> never holds for a NaN operand. A tensor entry is therefore a finite
  number (a real, rounding is not modelled), an infinity or NaN.
\<close>

datatype fl = Fin real | PInf | NInf | NaN

definition is_nan :: "fl \<Rightarrow> bool" where
  "is_nan x = (x = NaN)"

definition fl_equal :: "fl \<Rightarrow> fl \<Rightarrow> bool" where
  "fl_equal a b = (\<not> is_nan a \<and> \<not> is_nan b \<and> a = b)"

text \<open>
  A tensor of rank 2 or 3 is a nested list, outermost axis first: \<open>[B, M, K]\<close> is a
  list of \<open>B\<close> samples, each a list of \<open>M\<close> rows of \<open>K\<close> entries.
\<close>

type_synonym tensor2 = "fl list list"
type_synonym tensor3 = "fl list list list"

definition shape2 :: "nat \<Rightarrow> nat \<Rightarrow> 'a list list \<Rightarrow> bool" where
  "shape2 B M t = (length t = B \<and> list_all (\<lambda>r. length r = M) t)"

definition shape3 :: "nat \<Rightarrow> nat \<Rightarrow> nat \<Rightarrow> 'a list list list \<Rightarrow> bool" where
  "shape3 B M K t = (length t = B \<and> list_all (shape2 M K) t)"

section \<open>Errors\<close>

text \<open>
  \<open>ValueError\<close> is the error \<open>call\<close> raises for a ragged image batch.
  \<open>OutOfRange\<close> is an index outside a tensor axis (\<open>images[0]\<close> of an empty batch,
  \<open>label[:, :, 4]\<close> on rows shorter than five). \<open>ShapeMismatch\<close> is TensorFlow
  refusing operands whose shapes do not fit.
\<close>

datatype error = ValueError | OutOfRange | ShapeMismatch

fun zipE :: "('a \<Rightarrow> 'b \<Rightarrow> error + 'c) \<Rightarrow> 'a list \<Rightarrow> 'b list \<Rightarrow> error + 'c list" where
  "zipE f [] [] = Inr []"
| "zipE f (x # xs) (y # ys) =
     (case f x y of
        Inl e \<Rightarrow> Inl e
      | Inr z \<Rightarrow> (case zipE f xs ys of Inl e \<Rightarrow> Inl e | Inr zs \<Rightarrow> Inr (z # zs)))"
| "zipE f _ _ = Inl ShapeMismatch"

fun mapE :: "('a \<Rightarrow> error + 'b) \<Rightarrow> 'a list \<Rightarrow> error + 'b list" where
  "mapE f [] = Inr []"
| "mapE f (x # xs) =
     (case f x of
        Inl e \<Rightarrow> Inl e
      | Inr z \<Rightarrow> (case mapE f xs of Inl e \<Rightarrow> Inl e | Inr zs \<Rightarrow> Inr (z # zs)))"

section \<open>The TensorFlow operations the encoder uses\<close>

text \<open>\<open>t[..., tf.newaxis]\<close> and \<open>tf.expand_dims(t, axis=-1)\<close> on a rank-2 tensor.\<close>

definition expand_dims_last :: "'a list list \<Rightarrow> 'a list list list" where
  "expand_dims_last t = map (map (\<lambda>v. [v])) t"

text \<open>\<open>tf.cast(tf.math.equal(t, k), self.dtype)\<close> on an integer tensor: 1.0 or 0.0.\<close>

definition equal_mask :: "int list list list \<Rightarrow> int \<Rightarrow> tensor3" where
  "equal_mask t k = map (map (map (\<lambda>v. if v = k then Fin 1 else Fin 0))) t"

definition tf_equal :: "tensor3 \<Rightarrow> fl \<Rightarrow> bool list list list" where
  "tf_equal t k = map (map (map (\<lambda>v. fl_equal v k))) t"

definition tf_not_equal :: "tensor3 \<Rightarrow> fl \<Rightarrow> bool list list list" where
  "tf_not_equal t k = map (map (map (\<lambda>v. \<not> fl_equal v k))) t"

text \<open>
  \<open>tf.where(cond, x, y)\<close> with a scalar \<open>x\<close>. The two outer axes of \<open>cond\<close> and
  \<open>y\<close> must agree; along the last axis an operand of size 1 is broadcast, as every
  condition the encoder builds has a last axis of size 1. (TensorFlow also broadcasts an
  outer axis of size 1 against a longer one; no operand of the encoder has such an axis
  unless a collaborator departs from its documented shape, and it counts as a mismatch
  here.)
\<close>

definition where_row :: "fl \<Rightarrow> bool list \<Rightarrow> fl list \<Rightarrow> error + fl list" where
  "where_row x cs ys =
     (if length cs = length ys then Inr (map2 (\<lambda>c v. if c then x else v) cs ys)
      else if length cs = 1 then Inr (map (\<lambda>v. if hd cs then x else v) ys)
      else if length ys = 1 then Inr (map (\<lambda>c. if c then x else hd ys) cs)
      else Inl ShapeMismatch)"

definition tf_where :: "bool list list list \<Rightarrow> fl \<Rightarrow> tensor3 \<Rightarrow> error + tensor3" where
  "tf_where cond x y = zipE (zipE (where_row x)) cond y"

text \<open>\<open>tf.concat([a, b], axis=-1)\<close>: the outer axes must agree.\<close>

definition tf_concat_last :: "tensor3 \<Rightarrow> tensor3 \<Rightarrow> error + tensor3" where
  "tf_concat_last a b = zipE (zipE (\<lambda>r s. Inr (r @ s))) a b"

text \<open>\<open>tf.math.reduce_any(tf.math.is_nan(t), axis=-1)\<close>.\<close>

definition any_nan_last :: "tensor3 \<Rightarrow> bool list list" where
  "any_nan_last t = map (map (list_ex is_nan)) t"

text \<open>The slices \<open>label[:, :, :4]\<close> and \<open>label[:, :, 4]\<close>.\<close>

definition slice_boxes :: "tensor3 \<Rightarrow> tensor3" where
  "slice_boxes label = map (map (take 4)) label"

definition slice_classes :: "tensor3 \<Rightarrow> error + tensor2" where
  "slice_classes label =
     mapE (mapE (\<lambda>row. if 4 < length row then Inr (row ! 4) else Inl OutOfRange)) label"

section \<open>The label encoder and its collaborators\<close>

text \<open>
  The box formats: \<open>"xyxy"\<close> and \<open>"xywh"\<close> (both named in these sources),
  the centre format of the targets, and a format relative to the image size, for which
  \<open>convert_format\<close> is handed the image.
\<close>

datatype box_format = XYXY | XYWH | CENTER_YXHW | REL_XYXY

text \<open>
  \<open>box_matcher.BoxMatcher\<close> as \<open>__init__\<close> configures it; its matching code is
  outside these sources and is a collaborator below.
\<close>

record matcher =
  thresholds :: "real list"
  match_values :: "int list"
  force_match_for_each_col :: bool

text \<open>
  The anchor generator: its \<open>bounding_box_format\<close> attribute and its call, which
  maps an image shape to a dictionary from pyramid level to anchor boxes (the items in
  dictionary order).
\<close>

record anchor_gen =
  generator_format :: box_format
  generate :: "nat list \<Rightarrow> (nat \<times> tensor2) list"

text \<open>
  The fields \<open>__init__\<close> stores. The two sentinel classes are class ids, numbers by
  their documentation (defaults \<open>-1.0\<close> and \<open>-2.0\<close>).
\<close>

record encoder =
  bounding_box_format :: box_format
  anchor_generator :: anchor_gen
  box_variance :: "real list"
  background_class :: real
  ignore_class :: real
  positive_threshold :: real
  negative_threshold :: real
  box_matcher :: matcher

definition init :: "box_format \<Rightarrow> anchor_gen \<Rightarrow> real \<Rightarrow> real \<Rightarrow> real list \<Rightarrow> real \<Rightarrow> real \<Rightarrow> encoder" where
  "init fmt gen pos neg variance background ignore =
     \<lparr> bounding_box_format = fmt,
       anchor_generator = gen,
       box_variance = variance,
       background_class = background,
       ignore_class = ignore,
       positive_threshold = pos,
       negative_threshold = neg,
       box_matcher = \<lparr> thresholds = [neg, pos], match_values = [-1, -2, 1],
                       force_match_for_each_col = False \<rparr> \<rparr>"

text \<open>The defaults of \<open>__init__\<close>.\<close>

definition init_default :: "box_format \<Rightarrow> anchor_gen \<Rightarrow> encoder" where
  "init_default fmt gen = init fmt gen (1/2) (2/5) [1/10, 1/10, 1/5, 1/5] (-1) (-2)"

text \<open>
  A bounding-box dictionary: \<open>boxes\<close> of shape \<open>[B, N, 4]\<close> (ragged in \<open>N\<close> before
  \<open>to_dense\<close>) and \<open>classes\<close> of rank 2, \<open>[B, N]\<close>, or rank 3, \<open>[B, N, 1]\<close>.
\<close>

datatype class_tensor = Rank2 tensor2 | Rank3 tensor3

record box_labels =
  boxes :: tensor3
  classes :: class_tensor

text \<open>An image is \<open>[H, W, C]\<close>; a batch is a dense tensor or a \<open>tf.RaggedTensor\<close>.\<close>

type_synonym image = tensor3

datatype images = Tensor "image list" | RaggedTensor "image list"

definition image_shape :: "image \<Rightarrow> nat list" where
  "image_shape img =
     [length img,
      (case img of [] \<Rightarrow> 0 | r # _ \<Rightarrow> length r),
      (case img of (p # _) # _ \<Rightarrow> length p | _ \<Rightarrow> 0)]"

text \<open>
  The functions of \<open>keras_cv.bounding_box\<close>, \<open>keras_cv.utils.target_gather\<close> and
  \<open>BoxMatcher.__call__\<close> that the encoder calls. Their code is not part of these
  sources: the encoder is modelled for arbitrary collaborators, and a theorem that needs
  more of them than their type says so in a hypothesis.

  A TensorFlow tensor knows the size of its last axis even when it has no rows; a nested
  list does not. \<open>_target_gather\<close> is therefore handed that size together with the
  tensor it gathers from: 4 for \<open>gt_boxes\<close>, \<open>[B, N, 4]\<close>, and 1 for
  \<open>gt_classes\<close>, \<open>[B, N, 1]\<close>.
\<close>

record collab =
  to_dense :: "box_labels \<Rightarrow> box_labels"
  convert_format :: "tensor2 \<Rightarrow> box_format \<Rightarrow> box_format \<Rightarrow> image \<Rightarrow> tensor2"
  compute_iou :: "tensor2 \<Rightarrow> tensor3 \<Rightarrow> box_format \<Rightarrow> tensor3"
  match_boxes :: "matcher \<Rightarrow> tensor3 \<Rightarrow> int list list \<times> int list list"
  target_gather :: "nat \<Rightarrow> tensor3 \<Rightarrow> int list list \<Rightarrow> tensor3"
  encode_box_to_deltas :: "tensor2 \<Rightarrow> tensor3 \<Rightarrow> box_format \<Rightarrow> box_format \<Rightarrow> real list \<Rightarrow> tensor3"

text \<open>
  The accumulator of \<open>matched_boxes_metric\<close>, a \<open>keras.metrics.BinaryAccuracy\<close>: the
  \<open>(y_true, y_pred)\<close> pairs it has been updated with, oldest first.
\<close>

type_synonym metric_state = "(int list list \<times> int list list) list"

definition update_state :: "metric_state \<Rightarrow> int list list \<Rightarrow> int list list \<Rightarrow> metric_state" where
  "update_state st y_true y_pred = st @ [(y_true, y_pred)]"

subsection \<open>\<open>_encode_sample\<close>\<close>

text \<open>Lines 116 to 118 and 132 to 139: the classification target before sanitising.\<close>

definition cls_target :: "encoder \<Rightarrow> int list list \<Rightarrow> tensor3 \<Rightarrow> error + tensor3" where
  "cls_target enc matched_vals0 matched_gt_cls_ids =
     (let matched_vals = expand_dims_last matched_vals0;
          positive_mask = equal_mask matched_vals 1;
          ignore_mask = equal_mask matched_vals (-2)
      in case tf_where (tf_not_equal positive_mask (Fin 1)) (Fin (background_class enc))
                matched_gt_cls_ids of
           Inl e \<Rightarrow> Inl e
         | Inr t \<Rightarrow> tf_where (tf_equal ignore_mask (Fin 1)) (Fin (ignore_class enc)) t)"

text \<open>Lines 147 to 153: a row with a NaN becomes the ignore class throughout.\<close>

definition sanitize :: "encoder \<Rightarrow> tensor3 \<Rightarrow> error + tensor3" where
  "sanitize enc label =
     tf_where (expand_dims_last (any_nan_last label)) (Fin (ignore_class enc)) label"

text \<open>
  Lines 157 to 163: for every sample and every ground-truth index below \<open>n_boxes\<close>,
  whether some anchor's matched index is that index. \<open>n_boxes\<close> is the second
  dimension of \<open>gt_boxes\<close>; a nested list without samples does not record it and
  counts as zero boxes.
\<close>

definition n_boxes :: "tensor3 \<Rightarrow> nat" where
  "n_boxes gt_boxes = (case gt_boxes of [] \<Rightarrow> 0 | s # _ \<Rightarrow> length s)"

definition matches :: "tensor3 \<Rightarrow> int list list \<Rightarrow> bool list list" where
  "matches gt_boxes matched_gt_idx =
     map (\<lambda>ids. map (\<lambda>j. list_ex (\<lambda>i. i = int j) ids) [0 ..< n_boxes gt_boxes]) matched_gt_idx"

definition cast_int :: "bool list list \<Rightarrow> int list list" where
  "cast_int t = map (map (\<lambda>b. if b then 1 else 0)) t"

definition encode_sample ::
  "collab \<Rightarrow> encoder \<Rightarrow> metric_state \<Rightarrow> tensor3 \<Rightarrow> tensor3 \<Rightarrow> tensor2 \<Rightarrow>
     (error + tensor3 \<times> tensor2) \<times> metric_state" where
  "encode_sample c enc st gt_boxes gt_classes anchor_boxes =
     (let iou_matrix = compute_iou c anchor_boxes gt_boxes XYWH;
          (matched_gt_idx, matched_vals) = match_boxes c (box_matcher enc) iou_matrix;
          matched_gt_boxes = target_gather c 4 gt_boxes matched_gt_idx;
          box_target = encode_box_to_deltas c anchor_boxes matched_gt_boxes
                         (bounding_box_format enc) (bounding_box_format enc) (box_variance enc);
          matched_gt_cls_ids = target_gather c 1 gt_classes matched_gt_idx
      in case cls_target enc matched_vals matched_gt_cls_ids of
           Inl e \<Rightarrow> (Inl e, st)
         | Inr ct \<Rightarrow>
            (case tf_concat_last box_target ct of
               Inl e \<Rightarrow> (Inl e, st)
             | Inr label0 \<Rightarrow>
                (case sanitize enc label0 of
                   Inl e \<Rightarrow> (Inl e, st)
                 | Inr label \<Rightarrow>
                    (case slice_classes label of
                       Inl e \<Rightarrow> (Inl e, st)
                     | Inr cls \<Rightarrow>
                        (Inr (slice_boxes label, cls),
                         update_state st
                           (replicate (length gt_boxes) (replicate (n_boxes gt_boxes) 0))
                           (cast_int (matches gt_boxes matched_gt_idx)))))))"

text \<open>
  Names for the intermediate tensors of \<open>_encode_sample\<close>: the matcher's result
  \<open>(matched_gt_idx, matched_vals)\<close>, \<open>box_target\<close> and \<open>matched_gt_cls_ids\<close>.
\<close>

definition matched :: "collab \<Rightarrow> encoder \<Rightarrow> tensor3 \<Rightarrow> tensor2 \<Rightarrow> int list list \<times> int list list" where
  "matched c enc gt_boxes anchor_boxes =
     match_boxes c (box_matcher enc) (compute_iou c anchor_boxes gt_boxes XYWH)"

definition box_target :: "collab \<Rightarrow> encoder \<Rightarrow> tensor3 \<Rightarrow> tensor2 \<Rightarrow> tensor3" where
  "box_target c enc gt_boxes anchor_boxes =
     encode_box_to_deltas c anchor_boxes
       (target_gather c 4 gt_boxes (fst (matched c enc gt_boxes anchor_boxes)))
       (bounding_box_format enc) (bounding_box_format enc) (box_variance enc)"

definition matched_gt_cls_ids :: "collab \<Rightarrow> encoder \<Rightarrow> tensor3 \<Rightarrow> tensor3 \<Rightarrow> tensor2 \<Rightarrow> tensor3" where
  "matched_gt_cls_ids c enc gt_boxes gt_classes anchor_boxes =
     target_gather c 1 gt_classes (fst (matched c enc gt_boxes anchor_boxes))"

text \<open>
  The shapes the collaborators document, at one call of \<open>_encode_sample\<close> with \<open>B\<close>
  samples and \<open>M\<close> anchors: the matcher answers with one index and one quality per
  sample and anchor, the delta encoder with four deltas and the gather of the classes
  with one class per sample and anchor.
\<close>

definition collaborators_conform :: "collab \<Rightarrow> encoder \<Rightarrow> tensor3 \<Rightarrow> tensor3 \<Rightarrow> tensor2 \<Rightarrow> bool" where
  "collaborators_conform c enc gt_boxes gt_classes anchor_boxes =
     (let B = length gt_boxes; M = length anchor_boxes
      in shape2 B M (fst (matched c enc gt_boxes anchor_boxes)) \<and>
         shape2 B M (snd (matched c enc gt_boxes anchor_boxes)) \<and>
         shape3 B M 4 (box_target c enc gt_boxes anchor_boxes) \<and>
         shape3 B M 1 (matched_gt_cls_ids c enc gt_boxes gt_classes anchor_boxes))"

subsection \<open>\<open>call\<close>\<close>

text \<open>Lines 192 and 193: classes of rank 2 get a last axis of size 1.\<close>

definition class_rank3 :: "class_tensor \<Rightarrow> tensor3" where
  "class_rank3 ct = (case ct of Rank2 t \<Rightarrow> expand_dims_last t | Rank3 t \<Rightarrow> t)"

text \<open>Lines 194 to 201: the anchors of the call, from \<open>images[0]\<close>.\<close>

definition generated_anchors :: "encoder \<Rightarrow> image \<Rightarrow> tensor2" where
  "generated_anchors enc image0 =
     concat (map snd (generate (anchor_generator enc) (image_shape image0)))"

definition call_anchors :: "collab \<Rightarrow> encoder \<Rightarrow> image \<Rightarrow> tensor2" where
  "call_anchors c enc image0 =
     convert_format c (generated_anchors enc image0)
       (generator_format (anchor_generator enc)) (bounding_box_format enc) image0"

definition call ::
  "collab \<Rightarrow> encoder \<Rightarrow> metric_state \<Rightarrow> images \<Rightarrow> box_labels \<Rightarrow>
     (error + tensor3 \<times> tensor2) \<times> metric_state" where
  "call c enc st imgs labels =
     (case imgs of
        RaggedTensor _ \<Rightarrow> (Inl ValueError, st)
      | Tensor batch \<Rightarrow>
         (let dense = to_dense c labels;
              gt_classes = class_rank3 (classes dense)
          in case batch of
               [] \<Rightarrow> (Inl OutOfRange, st)
             | image0 # _ \<Rightarrow>
                encode_sample c enc st (boxes dense) gt_classes (call_anchors c enc image0)))"

text \<open>
  The shapes \<open>call\<close> expects of its labels: \<open>classes\<close> has a sample for every
  sample of \<open>boxes\<close>, and classes of rank 3 have a last axis of size 1. The number of
  boxes of a sample is free, and so is the content of every row.
\<close>

definition labels_well_formed :: "box_labels \<Rightarrow> bool" where
  "labels_well_formed labels =
     (case classes labels of
        Rank2 t \<Rightarrow> length t = length (boxes labels)
      | Rank3 t \<Rightarrow> length t = length (boxes labels) \<and> list_all (list_all (\<lambda>r. length r = 1)) t)"

text \<open>
  \<open>convert_format\<close> reads its \<open>images\<close> argument for the image size only: the
  property of the collaborator under which images of one shape give the same boxes.
\<close>

definition reads_shape_only :: "collab \<Rightarrow> bool" where
  "reads_shape_only c =
     (\<forall>bxs source target img img'.
        image_shape img = image_shape img' \<longrightarrow>
        convert_format c bxs source target img = convert_format c bxs source target img')"

section \<open>Collaborators as the specification describes them\<close>

text \<open>
  The collaborators' code is not in these sources. The definitions of this section model
  them from the specification, to run the encoder on concrete inputs. Arithmetic on
  \<open>fl\<close> is exact on finite values and follows IEEE 754 on the special values:
  \<open>0/0\<close>, \<open>\<infinity> - \<infinity>\<close>, \<open>0 * \<infinity>\<close> and the logarithm of a negative number are
  NaN, the logarithm of zero is \<open>-\<infinity>\<close>, and NaN compares false with everything.
  Signed zeros are not modelled.
\<close>

fun fl_neg :: "fl \<Rightarrow> fl" where
  "fl_neg (Fin a) = Fin (- a)"
| "fl_neg PInf = NInf"
| "fl_neg NInf = PInf"
| "fl_neg NaN = NaN"

fun fl_add :: "fl \<Rightarrow> fl \<Rightarrow> fl" where
  "fl_add NaN _ = NaN"
| "fl_add _ NaN = NaN"
| "fl_add (Fin a) (Fin b) = Fin (a + b)"
| "fl_add PInf NInf = NaN"
| "fl_add NInf PInf = NaN"
| "fl_add PInf _ = PInf"
| "fl_add _ PInf = PInf"
| "fl_add NInf _ = NInf"
| "fl_add _ NInf = NInf"

definition fl_sub :: "fl \<Rightarrow> fl \<Rightarrow> fl" where
  "fl_sub a b = fl_add a (fl_neg b)"

fun fl_positive :: "fl \<Rightarrow> bool" where
  "fl_positive (Fin a) = (0 \<le> a)"
| "fl_positive PInf = True"
| "fl_positive NInf = False"
| "fl_positive NaN = False"

fun fl_mul :: "fl \<Rightarrow> fl \<Rightarrow> fl" where
  "fl_mul NaN _ = NaN"
| "fl_mul _ NaN = NaN"
| "fl_mul (Fin a) (Fin b) = Fin (a * b)"
| "fl_mul a b =
     (if a = Fin 0 \<or> b = Fin 0 then NaN
      else if fl_positive a = fl_positive b then PInf else NInf)"

fun fl_div :: "fl \<Rightarrow> fl \<Rightarrow> fl" where
  "fl_div NaN _ = NaN"
| "fl_div _ NaN = NaN"
| "fl_div (Fin a) (Fin b) =
     (if b = 0 then (if a = 0 then NaN else if 0 < a then PInf else NInf) else Fin (a / b))"
| "fl_div (Fin a) _ = Fin 0"
| "fl_div a (Fin b) = (if fl_positive a = (0 \<le> b) then PInf else NInf)"
| "fl_div _ _ = NaN"

fun fl_log :: "fl \<Rightarrow> fl" where
  "fl_log (Fin a) = (if a < 0 then NaN else if a = 0 then NInf else Fin (ln a))"
| "fl_log PInf = PInf"
| "fl_log NInf = NaN"
| "fl_log NaN = NaN"

fun fl_less :: "fl \<Rightarrow> fl \<Rightarrow> bool" where
  "fl_less NaN _ = False"
| "fl_less _ NaN = False"
| "fl_less (Fin a) (Fin b) = (a < b)"
| "fl_less _ NInf = False"
| "fl_less NInf _ = True"
| "fl_less PInf _ = False"
| "fl_less _ PInf = True"

definition fl_le :: "fl \<Rightarrow> fl \<Rightarrow> bool" where
  "fl_le a b = (fl_less a b \<or> fl_equal a b)"

definition fl_max :: "fl \<Rightarrow> fl \<Rightarrow> fl" where
  "fl_max a b = (if is_nan a \<or> is_nan b then NaN else if fl_less a b then b else a)"

definition fl_min :: "fl \<Rightarrow> fl \<Rightarrow> fl" where
  "fl_min a b = (if is_nan a \<or> is_nan b then NaN else if fl_less b a then b else a)"

text \<open>
  Modelled from the spec: the box formats behind \<open>convert_format\<close>, which is not in
  these sources. Every format is read through its corners \<open>[x1, y1, x2, y2]\<close>: a
  width and height are added to the near corner, a centre is moved by half the size, a
  relative coordinate is scaled by the image width or height (\<open>shape = [H, W, C]\<close>).
\<close>

fun to_xyxy :: "box_format \<Rightarrow> nat list \<Rightarrow> fl list \<Rightarrow> fl list" where
  "to_xyxy XYXY shape [x1, y1, x2, y2] = [x1, y1, x2, y2]"
| "to_xyxy XYWH shape [x, y, w, h] = [x, y, fl_add x w, fl_add y h]"
| "to_xyxy CENTER_YXHW shape [cy, cx, h, w] =
     [fl_sub cx (fl_div w (Fin 2)), fl_sub cy (fl_div h (Fin 2)),
      fl_add cx (fl_div w (Fin 2)), fl_add cy (fl_div h (Fin 2))]"
| "to_xyxy REL_XYXY [H, W, C] [x1, y1, x2, y2] =
     [fl_mul x1 (Fin (real W)), fl_mul y1 (Fin (real H)),
      fl_mul x2 (Fin (real W)), fl_mul y2 (Fin (real H))]"
| "to_xyxy fmt shape row = row"

fun from_xyxy :: "box_format \<Rightarrow> nat list \<Rightarrow> fl list \<Rightarrow> fl list" where
  "from_xyxy XYXY shape [x1, y1, x2, y2] = [x1, y1, x2, y2]"
| "from_xyxy XYWH shape [x1, y1, x2, y2] = [x1, y1, fl_sub x2 x1, fl_sub y2 y1]"
| "from_xyxy CENTER_YXHW shape [x1, y1, x2, y2] =
     [fl_div (fl_add y1 y2) (Fin 2), fl_div (fl_add x1 x2) (Fin 2),
      fl_sub y2 y1, fl_sub x2 x1]"
| "from_xyxy REL_XYXY [H, W, C] [x1, y1, x2, y2] =
     [fl_div x1 (Fin (real W)), fl_div y1 (Fin (real H)),
      fl_div x2 (Fin (real W)), fl_div y2 (Fin (real H))]"
| "from_xyxy fmt shape row = row"

definition spec_convert_format :: "tensor2 \<Rightarrow> box_format \<Rightarrow> box_format \<Rightarrow> image \<Rightarrow> tensor2" where
  "spec_convert_format bxs source target img =
     map (\<lambda>b. from_xyxy target (image_shape img) (to_xyxy source (image_shape img) b)) bxs"

text \<open>
  Modelled from the spec: \<open>compute_iou\<close>, which is not in these sources. "IoU =
  intersection-area / union-area, 0 when either box has non-positive area", for every
  anchor against every ground-truth box of every sample: the result is \<open>[B, M, N]\<close>.
\<close>

definition box_area :: "fl list \<Rightarrow> fl" where
  "box_area b = (case b of [x1, y1, x2, y2] \<Rightarrow> fl_mul (fl_sub x2 x1) (fl_sub y2 y1) | _ \<Rightarrow> NaN)"

definition intersection_area :: "fl list \<Rightarrow> fl list \<Rightarrow> fl" where
  "intersection_area a b =
     (case (a, b) of
        ([ax1, ay1, ax2, ay2], [bx1, by1, bx2, by2]) \<Rightarrow>
          fl_mul (fl_max (Fin 0) (fl_sub (fl_min ax2 bx2) (fl_max ax1 bx1)))
                 (fl_max (Fin 0) (fl_sub (fl_min ay2 by2) (fl_max ay1 by1)))
      | _ \<Rightarrow> NaN)"

definition iou :: "fl list \<Rightarrow> fl list \<Rightarrow> fl" where
  "iou a b =
     (if fl_le (box_area a) (Fin 0) \<or> fl_le (box_area b) (Fin 0) then Fin 0
      else fl_div (intersection_area a b)
             (fl_sub (fl_add (box_area a) (box_area b)) (intersection_area a b)))"

definition spec_compute_iou :: "tensor2 \<Rightarrow> tensor3 \<Rightarrow> box_format \<Rightarrow> tensor3" where
  "spec_compute_iou anchors gt fmt =
     map (\<lambda>sample.
            map (\<lambda>a. map (\<lambda>g. iou (to_xyxy fmt [1, 1, 1] a) (to_xyxy fmt [1, 1, 1] g)) sample)
                anchors)
         gt"

text \<open>
  Modelled from the spec: the box matcher's call, which is not in these sources. Each
  anchor (a row of the IoU matrix) is matched to the ground-truth box of its best IoU,
  the first one on a tie; its quality is the match value of the interval its best IoU
  falls in: "below negative_threshold: negative; at/above positive_threshold: positive;
  between: ignore". An anchor with no ground-truth column gets the invalid index
  \<open>-1\<close> and the lowest interval.
\<close>

fun argmax_from :: "nat \<Rightarrow> fl \<Rightarrow> nat \<Rightarrow> fl list \<Rightarrow> nat \<times> fl" where
  "argmax_from best bv i [] = (best, bv)"
| "argmax_from best bv i (v # vs) =
     (if fl_less bv v then argmax_from i v (Suc i) vs else argmax_from best bv (Suc i) vs)"

definition quality :: "matcher \<Rightarrow> fl \<Rightarrow> int" where
  "quality m v =
     (let k = length (filter (\<lambda>t. fl_le (Fin t) v) (thresholds m))
      in if k < length (match_values m) then match_values m ! k else 0)"

definition match_row :: "matcher \<Rightarrow> fl list \<Rightarrow> int \<times> int" where
  "match_row m row =
     (case row of
        [] \<Rightarrow> (-1, quality m NInf)
      | v # vs \<Rightarrow> (case argmax_from 0 v 1 vs of (j, best) \<Rightarrow> (int j, quality m best)))"

definition spec_match_boxes :: "matcher \<Rightarrow> tensor3 \<Rightarrow> int list list \<times> int list list" where
  "spec_match_boxes m iou_matrix =
     (map (map (\<lambda>row. fst (match_row m row))) iou_matrix,
      map (map (\<lambda>row. snd (match_row m row))) iou_matrix)"

text \<open>
  Modelled from the spec: \<open>_target_gather\<close>, which is not in these sources. "Gather
  matched ground-truth box and class per anchor using matched_index (invalid/sentinel
  indices gather sentinel/padding rows, never crash)": an index that is not the index
  of a row of the sample gathers a padding row, all \<open>-1\<close> and as wide as the last
  axis of the tensor, \<open>width\<close>; so does every index when the sample has no rows.
\<close>

definition spec_target_gather :: "nat \<Rightarrow> tensor3 \<Rightarrow> int list list \<Rightarrow> tensor3" where
  "spec_target_gather width targets idx =
     map2 (\<lambda>rows ids.
             map (\<lambda>i. if 0 \<le> i \<and> nat i < length rows then rows ! nat i
                       else replicate width (Fin (-1)))
                 ids)
          targets idx"

text \<open>
  Modelled from the spec: \<open>_encode_box_to_deltas\<close>, which is not in these sources.
  "Scaled offset of center coordinates by anchor size, log-scaled ratio of box size to
  anchor size", each divided by its variance, with anchor and box read in the formats
  given.
\<close>

definition to_center :: "fl list \<Rightarrow> fl list" where
  "to_center b =
     (case b of
        [x1, y1, x2, y2] \<Rightarrow>
          [fl_div (fl_add x1 x2) (Fin 2), fl_div (fl_add y1 y2) (Fin 2),
           fl_sub x2 x1, fl_sub y2 y1]
      | _ \<Rightarrow> [NaN, NaN, NaN, NaN])"

definition box_delta :: "box_format \<Rightarrow> box_format \<Rightarrow> real list \<Rightarrow> fl list \<Rightarrow> fl list \<Rightarrow> fl list" where
  "box_delta anchor_format box_fmt variance anchor box =
     (case (to_center (to_xyxy anchor_format [1, 1, 1] anchor),
            to_center (to_xyxy box_fmt [1, 1, 1] box)) of
        ([ax, ay, aw, ah], [bx, by, bw, bh]) \<Rightarrow>
          map2 fl_div
            [fl_div (fl_sub bx ax) aw, fl_div (fl_sub by ay) ah,
             fl_log (fl_div bw aw), fl_log (fl_div bh ah)]
            (map Fin variance)
      | _ \<Rightarrow> [NaN, NaN, NaN, NaN])"

definition spec_encode_box_to_deltas ::
  "tensor2 \<Rightarrow> tensor3 \<Rightarrow> box_format \<Rightarrow> box_format \<Rightarrow> real list \<Rightarrow> tensor3" where
  "spec_encode_box_to_deltas anchors bxs anchor_format box_fmt variance =
     map (\<lambda>sample. map2 (box_delta anchor_format box_fmt variance) anchors sample) bxs"

text \<open>
  Modelled from the spec: \<open>to_dense\<close>, which is not in these sources. "Densify ragged
  ground-truth boxes/classes to a padded rectangular array (pad value -1)".
\<close>

definition pad_to :: "nat \<Rightarrow> 'a \<Rightarrow> 'a list \<Rightarrow> 'a list" where
  "pad_to n v xs = xs @ replicate (n - length xs) v"

definition max_count :: "'a list list \<Rightarrow> nat" where
  "max_count t = fold max (map length t) 0"

definition spec_to_dense :: "box_labels \<Rightarrow> box_labels" where
  "spec_to_dense labels =
     \<lparr> boxes = map (pad_to (max_count (boxes labels)) (replicate 4 (Fin (-1)))) (boxes labels),
       classes =
         (case classes labels of
            Rank2 t \<Rightarrow> Rank2 (map (pad_to (max_count t) (Fin (-1))) t)
          | Rank3 t \<Rightarrow> Rank3 (map (pad_to (max_count t) [Fin (-1)]) t)) \<rparr>"

definition spec_collab :: collab where
  "spec_collab =
     \<lparr> to_dense = spec_to_dense,
       convert_format = spec_convert_format,
       compute_iou = spec_compute_iou,
       match_boxes = spec_match_boxes,
       target_gather = spec_target_gather,
       encode_box_to_deltas = spec_encode_box_to_deltas \<rparr>"

section \<open>The random flip layer\<close>

text \<open>
  The layer's code, \<open>random_flip.py\<close>, is not in these sources; its tests are. The
  layer is modelled from the specification, and the tests from their source.
\<close>

subsection \<open>What the tests compute\<close>

text \<open>
  \<open>np.flip(inp, axis=2)\<close> and \<open>np.flip(inp, axis=1)\<close> on a batch \<open>[B, H, W, C]\<close>:
  the width axis and the height axis reversed.
\<close>

definition np_flip_axis2 :: "'a list list list list \<Rightarrow> 'a list list list list" where
  "np_flip_axis2 inp = map (map rev) inp"

definition np_flip_axis1 :: "'a list list list list \<Rightarrow> 'a list list list list" where
  "np_flip_axis1 inp = map rev inp"

text \<open>
  \<open>test_horizontal_flip\<close>: the layer in mode \<open>"horizontal"\<close> with the draws mocked as
  \<open>[0.6, 0.6]\<close> must return \<open>np.flip(inp, axis=2)\<close>. \<open>test_flip_both\<close>: in mode
  \<open>"horizontal_and_vertical"\<close> with four draws of 0.6 it must return the input flipped
  on both axes. The layer under test is the argument; \<open>None\<close> is a failed call.
\<close>

datatype flip_mode = Horizontal | Vertical | Horizontal_and_vertical

definition test_horizontal_flip ::
  "(flip_mode \<Rightarrow> real list \<Rightarrow> 'a list list list list \<Rightarrow> 'a list list list list option) \<Rightarrow>
     'a list list list list \<Rightarrow> bool" where
  "test_horizontal_flip layer inp =
     (let mock_random = [6/10, 6/10];
          expected_output = np_flip_axis2 inp
      in layer Horizontal mock_random inp = Some expected_output)"

definition test_flip_both ::
  "(flip_mode \<Rightarrow> real list \<Rightarrow> 'a list list list list \<Rightarrow> 'a list list list list option) \<Rightarrow>
     'a list list list list \<Rightarrow> bool" where
  "test_flip_both layer inp =
     (let mock_random = [6/10, 6/10, 6/10, 6/10];
          expected_output = np_flip_axis1 (np_flip_axis2 inp)
      in layer Horizontal_and_vertical mock_random inp = Some expected_output)"

subsection \<open>The layer\<close>

text \<open>
  Modelled from the spec: the geometry of the flip, which is not in these sources. "Image
  flip: horizontal mirrors the width axis, vertical mirrors the height axis"; "Mask flip:
  mirrors exactly as image does"; the box transform replaces a coordinate on the flipped
  axis by the image size minus that coordinate and leaves the other axis unchanged. A box
  is \<open>(x1, y1, x2, y2)\<close>, the format of the tests, so the far corner becomes the near
  one: "new = (20 - old_far_corner, 20 - old_near_corner) per axis".
\<close>

type_synonym box = "real \<times> real \<times> real \<times> real"

record 'a sample =
  image :: "'a list list list"
  bounding_boxes :: "box list"
  segmentation_mask :: "'a list list list"

definition image_height :: "'a list list list \<Rightarrow> nat" where
  "image_height img = length img"

definition image_width :: "'a list list list \<Rightarrow> nat" where
  "image_width img = (case img of [] \<Rightarrow> 0 | row # _ \<Rightarrow> length row)"

definition flip_left_right :: "'a list list list \<Rightarrow> 'a list list list" where
  "flip_left_right img = map rev img"

definition flip_up_down :: "'a list list list \<Rightarrow> 'a list list list" where
  "flip_up_down img = rev img"

fun flip_box_horizontal :: "real \<Rightarrow> box \<Rightarrow> box" where
  "flip_box_horizontal w (x1, y1, x2, y2) = (w - x2, y1, w - x1, y2)"

fun flip_box_vertical :: "real \<Rightarrow> box \<Rightarrow> box" where
  "flip_box_vertical h (x1, y1, x2, y2) = (x1, h - y2, x2, h - y1)"

definition flip_horizontal :: "'a sample \<Rightarrow> 'a sample" where
  "flip_horizontal s =
     \<lparr> image = flip_left_right (image s),
       bounding_boxes = map (flip_box_horizontal (real (image_width (image s)))) (bounding_boxes s),
       segmentation_mask = flip_left_right (segmentation_mask s) \<rparr>"

definition flip_vertical :: "'a sample \<Rightarrow> 'a sample" where
  "flip_vertical s =
     \<lparr> image = flip_up_down (image s),
       bounding_boxes = map (flip_box_vertical (real (image_height (image s)))) (bounding_boxes s),
       segmentation_mask = flip_up_down (segmentation_mask s) \<rparr>"



definition enabled_horizontal :: "flip_mode \<Rightarrow> bool" where
  "enabled_horizontal m = (m = Horizontal \<or> m = Horizontal_and_vertical)"

definition enabled_vertical :: "flip_mode \<Rightarrow> bool" where
  "enabled_vertical m = (m = Vertical \<or> m = Horizontal_and_vertical)"

definition draw_axis ::
  "(real \<Rightarrow> real \<Rightarrow> bool) \<Rightarrow> real \<Rightarrow> bool \<Rightarrow> real list \<Rightarrow> (bool \<times> real list) option" where
  "draw_axis decide rate enabled rng =
     (if \<not> enabled then Some (False, rng)
      else case rng of [] \<Rightarrow> None | u # rest \<Rightarrow> Some (decide rate u, rest))"

definition augment :: "bool \<Rightarrow> bool \<Rightarrow> 'a sample \<Rightarrow> 'a sample" where
  "augment do_horizontal do_vertical s =
     (let s1 = (if do_horizontal then flip_horizontal s else s)
      in if do_vertical then flip_vertical s1 else s1)"

fun random_flip ::
  "(real \<Rightarrow> real \<Rightarrow> bool) \<Rightarrow> real \<Rightarrow> flip_mode \<Rightarrow> real list \<Rightarrow> 'a sample list \<Rightarrow>
     'a sample list option" where
  "random_flip decide rate m rng [] = Some []"
| "random_flip decide rate m rng (s # ss) =
     (case draw_axis decide rate (enabled_horizontal m) rng of
        None \<Rightarrow> None
      | Some (do_horizontal, rng1) \<Rightarrow>
         (case draw_axis decide rate (enabled_vertical m) rng1 of
            None \<Rightarrow> None
          | Some (do_vertical, rng2) \<Rightarrow>
             (case random_flip decide rate m rng2 ss of
                None \<Rightarrow> None
              | Some out \<Rightarrow> Some (augment do_horizontal do_vertical s # out))))"

text \<open>The layer on a plain batch of images, at the default rate 0.5, as the tests call it.\<close>

definition image_only :: "'a list list list \<Rightarrow> 'a sample" where
  "image_only img = \<lparr> image = img, bounding_boxes = [], segmentation_mask = [] \<rparr>"

definition random_flip_images ::
  "(real \<Rightarrow> real \<Rightarrow> bool) \<Rightarrow> flip_mode \<Rightarrow> real list \<Rightarrow> 'a list list list list \<Rightarrow>
     'a list list list list option" where
  "random_flip_images decide m rng inp =
     map_option (map image) (random_flip decide (1/2) m rng (map image_only inp))"

section \<open>Example inputs\<close>

text \<open>
  An anchor generator that returns the given boxes on one pyramid level whatever the
  image, and one that returns a single anchor covering the image.
\<close>

definition fixed_anchors :: "box_format \<Rightarrow> tensor2 \<Rightarrow> anchor_gen" where
  "fixed_anchors fmt bxs = \<lparr> generator_format = fmt, generate = (\<lambda>shape. [(3, bxs)]) \<rparr>"

definition whole_image_anchor :: anchor_gen where
  "whole_image_anchor =
     \<lparr> generator_format = XYXY,
       generate = (\<lambda>shape. case shape of
                     [h, w, c] \<Rightarrow> [(3, [[Fin 0, Fin 0, Fin (real w), Fin (real h)]])]
                   | _ \<Rightarrow> []) \<rparr>"

text \<open>A black image of one pixel and one channel.\<close>

definition one_pixel :: image where
  "one_pixel = [[[Fin 0]]]"

text \<open>Two images of two rows, three columns and one channel that differ in every pixel.\<close>

definition dark_2x3 :: image where
  "dark_2x3 = [[[Fin 0], [Fin 0], [Fin 0]], [[Fin 0], [Fin 0], [Fin 0]]]"

definition bright_2x3 :: image where
  "bright_2x3 = [[[Fin 1], [Fin 2], [Fin 3]], [[Fin 4], [Fin 5], [Fin 6]]]"



section \<open>Lemmas on the tensor operations\<close>

lemma zipE_map2:
  "list_all2 (\<lambda>x y. f x y = Inr (g x y)) xs ys \<Longrightarrow> zipE f xs ys = Inr (map2 g xs ys)"
  by (induction rule: list_all2_induct) simp_all

lemma zipE_length: "zipE f xs ys = Inr zs \<Longrightarrow> length xs = length ys \<and> length zs = length xs"
  by (induction f xs ys arbitrary: zs rule: zipE.induct) (auto split: sum.splits)

lemma zipE_error:
  "zipE f xs ys = Inl e \<Longrightarrow> e = ShapeMismatch \<or> (\<exists>x y. f x y = Inl e)"
  by (induction f xs ys rule: zipE.induct) (auto split: sum.splits)

lemma mapE_map: "list_all (\<lambda>x. f x = Inr (g x)) xs \<Longrightarrow> mapE f xs = Inr (map g xs)"
  by (induction xs) simp_all

lemma mapE_error: "mapE f xs = Inl e \<Longrightarrow> \<exists>x. f x = Inl e"
  by (induction xs) (auto split: sum.splits)

lemma mapE_Inr: "mapE f xs = Inr zs \<Longrightarrow> list_all2 (\<lambda>x z. f x = Inr z) xs zs"
  by (induction xs arbitrary: zs) (auto split: sum.splits)

lemma where_row_single: "where_row x [c] ys = Inr (map (\<lambda>v. if c then x else v) ys)"
proof (cases ys)
  case Nil then show ?thesis by (simp add: where_row_def)
next
  case (Cons y ys') then show ?thesis by (cases ys') (simp_all add: where_row_def)
qed

lemma zipE_where_rows:
  "length r = length s \<Longrightarrow>
     zipE (where_row x) (map (\<lambda>v. [v]) r) s = Inr (map2 (\<lambda>c row. map (\<lambda>v. if c then x else v) row) r s)"
  by (induction r s rule: list_induct2) (simp_all add: where_row_single)

lemma tf_where_expand:
  assumes "list_all2 (\<lambda>r s. length r = length s) cb y"
  shows "tf_where (expand_dims_last cb) x y =
           Inr (map2 (map2 (\<lambda>c row. map (\<lambda>v. if c then x else v) row)) cb y)"
  using assms unfolding tf_where_def expand_dims_last_def
  by (induction rule: list_all2_induct) (simp_all add: zipE_where_rows)

lemma map2_map2_same:
  "map2 f xs (map2 g xs ys) = map2 (\<lambda>x y. f x (g x y)) xs ys"
proof (induction xs arbitrary: ys)
  case (Cons x xs) then show ?case by (cases ys) simp_all
qed simp

lemma map2_map_left: "map2 f (map h xs) ys = map2 (\<lambda>x y. f (h x) y) xs ys"
proof (induction xs arbitrary: ys)
  case (Cons x xs) then show ?case by (cases ys) simp_all
qed simp

lemma same_outer_map2:
  "list_all2 (\<lambda>r s. length r = length s) a b \<Longrightarrow>
     list_all2 (\<lambda>r s. length r = length s) a (map2 (map2 f) a b)"
  by (induction rule: list_all2_induct) simp_all

lemma same_outer_map:
  "list_all2 (\<lambda>r s. length r = length s) a b \<Longrightarrow>
     list_all2 (\<lambda>r s. length r = length s) (map (map h) a) b"
  by (induction rule: list_all2_induct) simp_all

lemma masks:
  "tf_not_equal (equal_mask (expand_dims_last vals) 1) (Fin 1) = expand_dims_last (map (map (\<lambda>v. v \<noteq> 1)) vals)"
  "tf_equal (equal_mask (expand_dims_last vals) (-2)) (Fin 1) = expand_dims_last (map (map (\<lambda>v. v = -2)) vals)"
  by (simp_all add: tf_not_equal_def tf_equal_def equal_mask_def expand_dims_last_def fl_equal_def is_nan_def)

lemma cls_target_closed:
  assumes "list_all2 (\<lambda>r s. length r = length s) vals cls"
  shows "cls_target enc vals cls =
           Inr (map2 (map2 (\<lambda>v row. map (\<lambda>g. if v = -2 then Fin (ignore_class enc)
                                  else if v \<noteq> 1 then Fin (background_class enc) else g) row)) vals cls)"
proof -
  let ?bg = "Fin (background_class enc)"
  let ?t1 = "map2 (map2 (\<lambda>c row. map (\<lambda>v. if c then ?bg else v) row)) (map (map (\<lambda>v. v \<noteq> 1)) vals) cls"
  have 1: "tf_where (expand_dims_last (map (map (\<lambda>v. v \<noteq> 1)) vals)) ?bg cls = Inr ?t1"
    by (rule tf_where_expand) (rule same_outer_map [OF assms])
  have t1: "?t1 = map2 (map2 (\<lambda>v row. map (\<lambda>g. if v \<noteq> 1 then ?bg else g) row)) vals cls"
    by (simp add: map2_map_left)
  have so: "list_all2 (\<lambda>r s. length r = length s) (map (map (\<lambda>v. v = -2)) vals) ?t1"
    unfolding t1 by (rule same_outer_map) (rule same_outer_map2 [OF assms])
  have 2: "tf_where (expand_dims_last (map (map (\<lambda>v. v = -2)) vals)) (Fin (ignore_class enc)) ?t1
        = Inr (map2 (map2 (\<lambda>c row. map (\<lambda>v. if c then Fin (ignore_class enc) else v) row)) (map (map (\<lambda>v. v = -2)) vals) ?t1)"
    by (rule tf_where_expand [OF so])
  show ?thesis
    unfolding cls_target_def Let_def masks 1 sum.case 2
    unfolding t1
    by (simp add: map2_map_left map2_map2_same o_def)
qed

lemma shape2_nth: "shape2 B M t \<Longrightarrow> b < B \<Longrightarrow> length (t ! b) = M"
  by (simp add: shape2_def list_all_length)

lemma shape3_nth:
  "shape3 B M K t \<Longrightarrow> b < B \<Longrightarrow> length (t ! b) = M \<and> (\<forall>m<M. length (t ! b ! m) = K)"
  by (simp add: shape3_def shape2_def list_all_length)

lemma shape2I: "length t = B \<Longrightarrow> (\<And>b. b < B \<Longrightarrow> length (t ! b) = M) \<Longrightarrow> shape2 B M t"
  by (simp add: shape2_def list_all_length)

lemma shape3I:
  "length t = B \<Longrightarrow> (\<And>b. b < B \<Longrightarrow> shape2 M K (t ! b)) \<Longrightarrow> shape3 B M K t"
  by (simp add: shape3_def list_all_length)

lemma same_outer_shapes:
  "shape2 B M a \<Longrightarrow> shape3 B M K b \<Longrightarrow> list_all2 (\<lambda>r s. length r = length s) a b"
  by (simp add: shape2_def shape3_def list_all2_conv_all_nth list_all_length)

lemma same_outer_shapes3:
  "shape3 B M K a \<Longrightarrow> shape3 B M K' b \<Longrightarrow> list_all2 (\<lambda>r s. length r = length s) a b"
  by (simp add: shape2_def shape3_def list_all2_conv_all_nth list_all_length)

lemma map2_same: "map2 f xs xs = map (\<lambda>x. f x x) xs"
  by (induction xs) simp_all

lemma same_outer_refl: "list_all2 (\<lambda>r s. length r = length s) a a"
  by (simp add: list_all2_same)

lemma sanitize_closed:
  "sanitize enc label =
     Inr (map (map (\<lambda>row. if list_ex is_nan row
                            then replicate (length row) (Fin (ignore_class enc)) else row)) label)"
proof -
  have so: "list_all2 (\<lambda>r s. length r = length s) (map (map (list_ex is_nan)) label) label"
    by (rule same_outer_map) (rule same_outer_refl)
  have row: "map (\<lambda>v. if c then x else v) r = (if c then replicate (length r) x else r)"
    for c :: bool and x :: fl and r
    by (simp add: map_replicate_const)
  show ?thesis
    unfolding sanitize_def any_nan_last_def tf_where_expand [OF so]
    by (simp add: map2_map_left map2_same row)
qed

lemma sanitized_row_no_nan:
  "list_all (\<lambda>v. \<not> is_nan v)
     (if list_ex is_nan row then replicate (length row) (Fin x) else row)"
  by (auto simp: list_all_iff list_ex_iff is_nan_def)

lemma encode_sample_no_nan:
  assumes "encode_sample c enc st gt_boxes gt_classes anchor_boxes = (Inr (bt, ct), st')"
  shows "list_all (list_all (list_all (\<lambda>v. \<not> is_nan v))) bt \<and>
         list_all (list_all (\<lambda>v. \<not> is_nan v)) ct"
proof -
  from assms obtain label0 where
    sl: "slice_classes (map (map (\<lambda>row. if list_ex is_nan row
           then replicate (length row) (Fin (ignore_class enc)) else row)) label0) = Inr ct"
    and bt: "bt = slice_boxes (map (map (\<lambda>row. if list_ex is_nan row
           then replicate (length row) (Fin (ignore_class enc)) else row)) label0)"
    unfolding encode_sample_def Let_def sanitize_closed
    by (auto split: prod.splits sum.splits)
  let ?label = "map (map (\<lambda>row. if list_ex is_nan row
           then replicate (length row) (Fin (ignore_class enc)) else row)) label0"
  have rows: "list_all (list_all (list_all (\<lambda>v. \<not> is_nan v))) ?label"
    by (auto simp: list_all_iff list_ex_iff is_nan_def split: if_splits)
  have take4: "list_all P r \<Longrightarrow> list_all P (take 4 r)" for P :: "fl \<Rightarrow> bool" and r
    by (auto simp: list_all_iff dest: in_set_takeD)
  have 1: "list_all (list_all (list_all (\<lambda>v. \<not> is_nan v))) bt"
    unfolding bt slice_boxes_def using rows
    by (auto simp: list_all_iff is_nan_def dest!: in_set_takeD split: if_splits)
  have inner: "mapE (\<lambda>row. if 4 < length row then Inr (row ! 4) else Inl OutOfRange) s = Inr zs \<Longrightarrow>
               list_all (list_all (\<lambda>v. \<not> is_nan v)) s \<Longrightarrow> list_all (\<lambda>v. \<not> is_nan v) zs"
    for s :: "fl list list" and zs
  proof (induction s arbitrary: zs)
    case (Cons r s)
    from Cons.prems(1) obtain zs' where r: "4 < length r" and zs: "zs = r ! 4 # zs'"
      and rest: "mapE (\<lambda>row. if 4 < length row then Inr (row ! 4) else Inl OutOfRange) s = Inr zs'"
      by (auto split: sum.splits if_splits)
    have "\<not> is_nan (r ! 4)"
      using Cons.prems(2) r by (auto simp: list_all_iff)
    moreover have "list_all (\<lambda>v. \<not> is_nan v) zs'"
      using Cons.IH [OF rest] Cons.prems(2) by simp
    ultimately show ?case by (simp add: zs)
  qed simp
  have outer: "mapE (mapE (\<lambda>row. if 4 < length row then Inr (row ! 4) else Inl OutOfRange)) l = Inr z \<Longrightarrow>
               list_all (list_all (list_all (\<lambda>v. \<not> is_nan v))) l \<Longrightarrow>
               list_all (list_all (\<lambda>v. \<not> is_nan v)) z"
    for l :: tensor3 and z
  proof (induction l arbitrary: z)
    case (Cons s l)
    then show ?case by (auto split: sum.splits dest: inner)
  qed simp
  have 2: "list_all (list_all (\<lambda>v. \<not> is_nan v)) ct"
    using sl rows unfolding slice_classes_def by (rule outer)
  from 1 2 show ?thesis ..
qed

text \<open>The definitions that evaluate the encoder on a concrete input.\<close>

lemmas tensor_defs = tf_where_def where_row_def tf_concat_last_def expand_dims_last_def
  equal_mask_def tf_equal_def tf_not_equal_def fl_equal_def is_nan_def any_nan_last_def
  slice_boxes_def slice_classes_def shape2_def shape3_def

lemmas encoder_defs = call_def encode_sample_def cls_target_def sanitize_def matches_def
  n_boxes_def cast_int_def update_state_def class_rank3_def call_anchors_def
  generated_anchors_def image_shape_def init_default_def init_def Let_def
  matched_def box_target_def matched_gt_cls_ids_def collaborators_conform_def

lemmas spec_defs = spec_collab_def spec_to_dense_def spec_convert_format_def
  spec_compute_iou_def spec_match_boxes_def spec_target_gather_def
  spec_encode_box_to_deltas_def box_delta_def to_center_def match_row_def quality_def
  iou_def intersection_area_def box_area_def fl_sub_def fl_le_def fl_max_def fl_min_def
  pad_to_def max_count_def eval_nat_numeral fixed_anchors_def whole_image_anchor_def
  one_pixel_def

lemma tf_where_error: "tf_where cond x y = Inl e \<Longrightarrow> e = ShapeMismatch"
  unfolding tf_where_def
  by (auto dest!: zipE_error simp: where_row_def split: if_splits)

lemma tf_concat_last_error: "tf_concat_last a b = Inl e \<Longrightarrow> e = ShapeMismatch"
  unfolding tf_concat_last_def
  by (auto dest!: zipE_error)

lemma slice_classes_error: "slice_classes l = Inl e \<Longrightarrow> e = OutOfRange"
  unfolding slice_classes_def
  by (auto dest!: mapE_error split: if_splits)

lemma cls_target_error: "cls_target enc v g = Inl e \<Longrightarrow> e = ShapeMismatch"
  unfolding cls_target_def Let_def
  by (auto split: sum.splits dest: tf_where_error)

lemma encode_sample_error:
  "fst (encode_sample c enc st gt_boxes gt_classes anchor_boxes) = Inl e \<Longrightarrow>
     e = ShapeMismatch \<or> e = OutOfRange"
  unfolding encode_sample_def Let_def sanitize_closed
  by (auto split: sum.splits prod.splits
      dest: cls_target_error tf_concat_last_error slice_classes_error)

lemma matches_nth:
  assumes "b < length idx" and "j < n_boxes gt_boxes"
  shows "(cast_int (matches gt_boxes idx) ! b ! j = 1) = (\<exists>m<length (idx ! b). idx ! b ! m = int j)"
  using assms
  by (auto simp: cast_int_def matches_def list_ex_length)

lemma encode_sample_state:
  "(case fst (encode_sample c enc st gt_boxes gt_classes anchor_boxes) of
      Inl e \<Rightarrow> snd (encode_sample c enc st gt_boxes gt_classes anchor_boxes) = st
    | Inr targets \<Rightarrow>
        snd (encode_sample c enc st gt_boxes gt_classes anchor_boxes) =
          st @ [(replicate (length gt_boxes) (replicate (n_boxes gt_boxes) 0),
                 cast_int (matches gt_boxes (fst (matched c enc gt_boxes anchor_boxes))))])"
  unfolding encode_sample_def Let_def matched_def update_state_def
  by (simp split: sum.splits prod.splits)

lemma encode_sample_targets_frame:
  "fst (encode_sample c enc st gt_boxes gt_classes anchor_boxes) =
   fst (encode_sample c enc st' gt_boxes gt_classes anchor_boxes)"
  unfolding encode_sample_def Let_def
  by (simp split: sum.splits prod.splits)

text \<open>
  What \<open>_encode_sample\<close> returns when the collaborators answer with the shapes they
  document: it succeeds, and every row of the targets is determined by the matcher's
  quality, the gathered class and the encoded deltas of its sample and anchor.
\<close>

lemma zipE_append: "length r = length s \<Longrightarrow> zipE (\<lambda>r s. Inr (r @ s)) r s = Inr (map2 (@) r s)"
  by (induction r s rule: list_induct2) simp_all

lemma tf_concat_last_closed:
  assumes "list_all2 (\<lambda>r s. length r = length s) a b"
  shows "tf_concat_last a b = Inr (map2 (map2 (@)) a b)"
  using assms unfolding tf_concat_last_def
  by (induction rule: list_all2_induct) (simp_all add: zipE_append)

lemma slice_classes_closed:
  assumes "list_all (list_all (\<lambda>row. 4 < length row)) l"
  shows "slice_classes l = Inr (map (map (\<lambda>row. row ! 4)) l)"
proof -
  have inner: "mapE (\<lambda>row. if 4 < length row then Inr (row ! 4) else Inl OutOfRange) s
                 = Inr (map (\<lambda>row. row ! 4) s)"
    if "list_all (\<lambda>row. 4 < length row) s" for s :: "fl list list"
    using that by (induction s) simp_all
  show ?thesis
    unfolding slice_classes_def using assms
    by (induction l) (simp_all add: inner)
qed

lemma encode_sample_unfold:
  "encode_sample c enc st gt_boxes gt_classes anchor_boxes =
     (case cls_target enc (snd (matched c enc gt_boxes anchor_boxes))
             (matched_gt_cls_ids c enc gt_boxes gt_classes anchor_boxes) of
        Inl e \<Rightarrow> (Inl e, st)
      | Inr ct \<Rightarrow>
         (case tf_concat_last (box_target c enc gt_boxes anchor_boxes) ct of
            Inl e \<Rightarrow> (Inl e, st)
          | Inr label0 \<Rightarrow>
             (case sanitize enc label0 of
                Inl e \<Rightarrow> (Inl e, st)
              | Inr label \<Rightarrow>
                 (case slice_classes label of
                    Inl e \<Rightarrow> (Inl e, st)
                  | Inr cls \<Rightarrow>
                     (Inr (slice_boxes label, cls),
                      update_state st
                        (replicate (length gt_boxes) (replicate (n_boxes gt_boxes) 0))
                        (cast_int (matches gt_boxes (fst (matched c enc gt_boxes anchor_boxes)))))))))"
  unfolding encode_sample_def matched_def box_target_def matched_gt_cls_ids_def Let_def split_def
  by (rule refl)

lemma encode_sample_conforming:
  assumes conf: "collaborators_conform c enc gt_boxes gt_classes anchor_boxes"
  shows "\<exists>bt ct.
           encode_sample c enc st gt_boxes gt_classes anchor_boxes =
             (Inr (bt, ct),
              update_state st (replicate (length gt_boxes) (replicate (n_boxes gt_boxes) 0))
                (cast_int (matches gt_boxes (fst (matched c enc gt_boxes anchor_boxes))))) \<and>
           shape3 (length gt_boxes) (length anchor_boxes) 4 bt \<and>
           shape2 (length gt_boxes) (length anchor_boxes) ct \<and>
           (\<forall>b<length gt_boxes. \<forall>m<length anchor_boxes.
              bt ! b ! m =
                (if list_ex is_nan (box_target c enc gt_boxes anchor_boxes ! b ! m) \<or>
                    (snd (matched c enc gt_boxes anchor_boxes) ! b ! m = 1 \<and>
                     is_nan (matched_gt_cls_ids c enc gt_boxes gt_classes anchor_boxes ! b ! m ! 0))
                 then replicate 4 (Fin (ignore_class enc))
                 else box_target c enc gt_boxes anchor_boxes ! b ! m) \<and>
              ct ! b ! m =
                (if list_ex is_nan (box_target c enc gt_boxes anchor_boxes ! b ! m) \<or>
                    (snd (matched c enc gt_boxes anchor_boxes) ! b ! m = 1 \<and>
                     is_nan (matched_gt_cls_ids c enc gt_boxes gt_classes anchor_boxes ! b ! m ! 0))
                 then Fin (ignore_class enc)
                 else if snd (matched c enc gt_boxes anchor_boxes) ! b ! m = 1
                      then matched_gt_cls_ids c enc gt_boxes gt_classes anchor_boxes ! b ! m ! 0
                 else if snd (matched c enc gt_boxes anchor_boxes) ! b ! m = -2
                      then Fin (ignore_class enc)
                 else Fin (background_class enc)))"
proof -
  define B where "B = length gt_boxes"
  define M where "M = length anchor_boxes"
  define vals where "vals = snd (matched c enc gt_boxes anchor_boxes)"
  define mc where "mc = matched_gt_cls_ids c enc gt_boxes gt_classes anchor_boxes"
  define d0 where "d0 = box_target c enc gt_boxes anchor_boxes"
  define ign where "ign = Fin (ignore_class enc)"
  define bg where "bg = Fin (background_class enc)"
  define F where "F = (\<lambda>v row. map (\<lambda>g. if v = -2 then ign else if v \<noteq> (1::int) then bg else g) row)"
  define S where "S = (\<lambda>row. if list_ex is_nan row then replicate (length row) ign else row)"
  define ct0 where "ct0 = map2 (map2 F) vals mc"
  define label0 where "label0 = map2 (map2 (@)) d0 ct0"
  define label where "label = map (map S) label0"
  from conf have sv: "shape2 B M vals" and sd: "shape3 B M 4 d0" and sm: "shape3 B M 1 mc"
    by (simp_all add: collaborators_conform_def Let_def B_def M_def vals_def mc_def d0_def)
  have lens: "length vals = B" "length d0 = B" "length mc = B"
    using sv sd sm by (simp_all add: shape2_def shape3_def)
  have rows: "length (vals ! b) = M \<and> length (d0 ! b) = M \<and> length (mc ! b) = M \<and>
              (\<forall>m<M. length (d0 ! b ! m) = 4 \<and> length (mc ! b ! m) = 1)" if "b < B" for b
    using sv sd sm that by (simp add: shape2_nth shape3_nth)
  have one: "mc ! b ! m = [mc ! b ! m ! 0]" if "b < B" "m < M" for b m
  proof -
    from rows [OF that(1)] that(2) have "length (mc ! b ! m) = 1" by simp
    then show ?thesis by (cases "mc ! b ! m") simp_all
  qed
  have e1: "cls_target enc vals mc = Inr ct0"
    unfolding ct0_def F_def ign_def bg_def
    by (rule cls_target_closed) (rule same_outer_shapes [OF sv sm])
  have l_ct0: "length ct0 = B" and r_ct0: "\<And>b. b < B \<Longrightarrow> length (ct0 ! b) = M"
    using lens rows by (simp_all add: ct0_def)
  have p_ct0: "ct0 ! b ! m = F (vals ! b ! m) (mc ! b ! m)" if "b < B" "m < M" for b m
    using that lens rows [OF that(1)] by (simp add: ct0_def)
  have so2: "list_all2 (\<lambda>r s. length r = length s) d0 ct0"
    using lens l_ct0 r_ct0 rows by (simp add: list_all2_conv_all_nth)
  have e2: "tf_concat_last d0 ct0 = Inr label0"
    unfolding label0_def by (rule tf_concat_last_closed [OF so2])
  have e3: "sanitize enc label0 = Inr label"
    unfolding label_def S_def ign_def by (rule sanitize_closed)
  have l_label0: "length label0 = B" and r_label0: "\<And>b. b < B \<Longrightarrow> length (label0 ! b) = M"
    using lens l_ct0 r_ct0 rows by (simp_all add: label0_def)
  have p_label0: "label0 ! b ! m = d0 ! b ! m @ F (vals ! b ! m) (mc ! b ! m)"
    if "b < B" "m < M" for b m
    using that lens l_ct0 r_ct0 [OF that(1)] rows [OF that(1)] p_ct0 [OF that]
    by (simp add: label0_def)
  have len5: "length (label0 ! b ! m) = 5" if "b < B" "m < M" for b m
    using rows [OF that(1)] that(2) by (simp add: p_label0 [OF that] F_def)
  have l_label: "length label = B" and r_label: "\<And>b. b < B \<Longrightarrow> length (label ! b) = M"
    using l_label0 r_label0 by (simp_all add: label_def)
  have p_label: "label ! b ! m = S (label0 ! b ! m)" if "b < B" "m < M" for b m
    using that l_label0 r_label0 [OF that(1)] by (simp add: label_def)
  have len5': "length (label ! b ! m) = 5" if "b < B" "m < M" for b m
    using len5 [OF that] by (simp add: p_label [OF that] S_def)
  have all5: "list_all (list_all (\<lambda>row. 4 < length row)) label"
    unfolding list_all_length
  proof (intro allI impI)
    fix b m assume "b < length label" "m < length (label ! b)"
    then have "b < B" "m < M" using l_label r_label by simp_all
    from len5' [OF this] show "4 < length (label ! b ! m)" by simp
  qed
  have e4: "slice_classes label = Inr (map (map (\<lambda>row. row ! 4)) label)"
    by (rule slice_classes_closed [OF all5])
  define bt where "bt = slice_boxes label"
  define ct where "ct = map (map (\<lambda>row. row ! 4)) label"
  have run: "encode_sample c enc st gt_boxes gt_classes anchor_boxes =
             (Inr (bt, ct),
              update_state st (replicate (length gt_boxes) (replicate (n_boxes gt_boxes) 0))
                (cast_int (matches gt_boxes (fst (matched c enc gt_boxes anchor_boxes)))))"
    unfolding encode_sample_unfold
    unfolding vals_def [symmetric] mc_def [symmetric] d0_def [symmetric]
    unfolding e1 sum.case e2 e3 e4 bt_def ct_def
    by (rule refl)
  have s_bt: "shape3 B M 4 bt"
  proof (rule shape3I)
    show "length bt = B" by (simp add: bt_def slice_boxes_def l_label)
  next
    fix b assume b: "b < B"
    show "shape2 M 4 (bt ! b)"
    proof (rule shape2I)
      show "length (bt ! b) = M"
        using b l_label r_label by (simp add: bt_def slice_boxes_def)
    next
      fix m assume m: "m < M"
      show "length (bt ! b ! m) = 4"
        using b m l_label r_label [OF b] len5' [OF b m] by (simp add: bt_def slice_boxes_def)
    qed
  qed
  have s_ct: "shape2 B M ct"
    using l_label r_label by (intro shape2I) (simp_all add: ct_def)
  have nan: "list_ex is_nan (label0 ! b ! m) =
               (list_ex is_nan (d0 ! b ! m) \<or> (vals ! b ! m = 1 \<and> is_nan (mc ! b ! m ! 0)))"
    if "b < B" "m < M" for b m
    unfolding p_label0 [OF that]
    by (subst one [OF that]) (simp add: F_def ign_def bg_def is_nan_def)
  have p_bt: "bt ! b ! m =
                (if list_ex is_nan (d0 ! b ! m) \<or> (vals ! b ! m = 1 \<and> is_nan (mc ! b ! m ! 0))
                 then replicate 4 ign else d0 ! b ! m)"
    if "b < B" "m < M" for b m
  proof -
    have "bt ! b ! m = take 4 (S (label0 ! b ! m))"
      using that l_label r_label [OF that(1)] p_label [OF that] by (simp add: bt_def slice_boxes_def)
    also have "\<dots> = (if list_ex is_nan (label0 ! b ! m) then replicate 4 ign
                     else take 4 (label0 ! b ! m))"
      using len5 [OF that] by (simp add: S_def)
    also have "take 4 (label0 ! b ! m) = d0 ! b ! m"
      using rows [OF that(1)] that(2) by (simp add: p_label0 [OF that])
    finally show ?thesis by (simp add: nan [OF that])
  qed
  have p_ct: "ct ! b ! m =
                (if list_ex is_nan (d0 ! b ! m) \<or> (vals ! b ! m = 1 \<and> is_nan (mc ! b ! m ! 0))
                 then ign
                 else if vals ! b ! m = 1 then mc ! b ! m ! 0
                 else if vals ! b ! m = -2 then ign else bg)"
    if "b < B" "m < M" for b m
  proof -
    have "ct ! b ! m = S (label0 ! b ! m) ! 4"
      using that l_label r_label [OF that(1)] p_label [OF that] by (simp add: ct_def)
    also have "\<dots> = (if list_ex is_nan (label0 ! b ! m) then ign else label0 ! b ! m ! 4)"
      using len5 [OF that] by (simp add: S_def)
    also have "label0 ! b ! m ! 4 = F (vals ! b ! m) (mc ! b ! m) ! 0"
      using rows [OF that(1)] that(2) by (simp add: p_label0 [OF that] nth_append)
    also have "\<dots> = (if vals ! b ! m = 1 then mc ! b ! m ! 0
                      else if vals ! b ! m = -2 then ign else bg)"
      by (subst one [OF that]) (simp add: F_def)
    finally show ?thesis by (simp add: nan [OF that])
  qed
  have pts: "\<forall>b<B. \<forall>m<M.
       bt ! b ! m = (if list_ex is_nan (d0 ! b ! m) \<or> (vals ! b ! m = 1 \<and> is_nan (mc ! b ! m ! 0))
                     then replicate 4 ign else d0 ! b ! m) \<and>
       ct ! b ! m = (if list_ex is_nan (d0 ! b ! m) \<or> (vals ! b ! m = 1 \<and> is_nan (mc ! b ! m ! 0))
                     then ign
                     else if vals ! b ! m = 1 then mc ! b ! m ! 0
                     else if vals ! b ! m = -2 then ign else bg)"
    using p_bt p_ct by simp
  show ?thesis
    apply (rule exI [of _ bt], rule exI [of _ ct])
    using run s_bt s_ct pts
    unfolding B_def M_def vals_def mc_def d0_def ign_def bg_def
    by (intro conjI)
qed

lemma encode_sample_iou_format:
  "encode_sample c enc st gt_boxes gt_classes anchor_boxes =
   encode_sample (c\<lparr>compute_iou := \<lambda>a g f. compute_iou c a g XYWH\<rparr>) enc st
     gt_boxes gt_classes anchor_boxes"
  by (simp add: encode_sample_def)

section \<open>The classification target\<close>



section \<open>Sanitising rows that hold a NaN\<close>

text \<open>
  Claim C2. The sanitising step (lines 147 to 153) always succeeds and replaces every entry
  of a row of the concatenated targets that holds at least one NaN by the ignore class;
  a row without NaN is left as it is. Whenever \<open>_encode_sample\<close> returns targets, no
  box target and no class target is NaN. With collaborators that answer with their
  documented shapes, the row of an anchor is its four deltas followed by its class: if
  one of the five is NaN, the anchor's returned box targets and class target are all the
  ignore class, otherwise they are the deltas and the class unchanged.
\<close>

theorem nan_rows_become_ignore:
  "sanitize enc label =
     Inr (map (map (\<lambda>row. if list_ex is_nan row
                            then replicate (length row) (Fin (ignore_class enc))
                            else row)) label) \<and>
   (encode_sample c enc st gt_boxes gt_classes anchor_boxes = (Inr (bt, ct), st') \<longrightarrow>
      list_all (list_all (list_all (\<lambda>v. \<not> is_nan v))) bt \<and>
      list_all (list_all (\<lambda>v. \<not> is_nan v)) ct) \<and>
   (collaborators_conform c enc gt_boxes gt_classes anchor_boxes \<and>
    encode_sample c enc st gt_boxes gt_classes anchor_boxes = (Inr (bt, ct), st') \<longrightarrow>
      (\<forall>b<length gt_boxes. \<forall>m<length anchor_boxes.
         (let deltas = box_target c enc gt_boxes anchor_boxes ! b ! m;
              q = snd (matched c enc gt_boxes anchor_boxes) ! b ! m;
              cls = (if q = 1
                     then matched_gt_cls_ids c enc gt_boxes gt_classes anchor_boxes ! b ! m ! 0
                     else if q = -2 then Fin (ignore_class enc)
                     else Fin (background_class enc))
          in if list_ex is_nan (deltas @ [cls])
             then bt ! b ! m = replicate 4 (Fin (ignore_class enc)) \<and>
                  ct ! b ! m = Fin (ignore_class enc)
             else bt ! b ! m = deltas \<and> ct ! b ! m = cls)))"
proof -
  have 3: "\<forall>b<length gt_boxes. \<forall>m<length anchor_boxes.
         (let deltas = box_target c enc gt_boxes anchor_boxes ! b ! m;
              q = snd (matched c enc gt_boxes anchor_boxes) ! b ! m;
              cls = (if q = 1
                     then matched_gt_cls_ids c enc gt_boxes gt_classes anchor_boxes ! b ! m ! 0
                     else if q = -2 then Fin (ignore_class enc)
                     else Fin (background_class enc))
          in if list_ex is_nan (deltas @ [cls])
             then bt ! b ! m = replicate 4 (Fin (ignore_class enc)) \<and>
                  ct ! b ! m = Fin (ignore_class enc)
             else bt ! b ! m = deltas \<and> ct ! b ! m = cls)"
    if conf: "collaborators_conform c enc gt_boxes gt_classes anchor_boxes"
      and run: "encode_sample c enc st gt_boxes gt_classes anchor_boxes = (Inr (bt, ct), st')"
  proof -
    from encode_sample_conforming [OF conf, of st]
    obtain bt' ct' where
      run': "encode_sample c enc st gt_boxes gt_classes anchor_boxes =
          (Inr (bt', ct'),
           update_state st (replicate (length gt_boxes) (replicate (n_boxes gt_boxes) 0))
             (cast_int (matches gt_boxes (fst (matched c enc gt_boxes anchor_boxes)))))"
      and pt: "\<forall>b<length gt_boxes. \<forall>m<length anchor_boxes.
              bt' ! b ! m =
                (if list_ex is_nan (box_target c enc gt_boxes anchor_boxes ! b ! m) \<or>
                    (snd (matched c enc gt_boxes anchor_boxes) ! b ! m = 1 \<and>
                     is_nan (matched_gt_cls_ids c enc gt_boxes gt_classes anchor_boxes ! b ! m ! 0))
                 then replicate 4 (Fin (ignore_class enc))
                 else box_target c enc gt_boxes anchor_boxes ! b ! m) \<and>
              ct' ! b ! m =
                (if list_ex is_nan (box_target c enc gt_boxes anchor_boxes ! b ! m) \<or>
                    (snd (matched c enc gt_boxes anchor_boxes) ! b ! m = 1 \<and>
                     is_nan (matched_gt_cls_ids c enc gt_boxes gt_classes anchor_boxes ! b ! m ! 0))
                 then Fin (ignore_class enc)
                 else if snd (matched c enc gt_boxes anchor_boxes) ! b ! m = 1
                      then matched_gt_cls_ids c enc gt_boxes gt_classes anchor_boxes ! b ! m ! 0
                 else if snd (matched c enc gt_boxes anchor_boxes) ! b ! m = -2
                      then Fin (ignore_class enc)
                 else Fin (background_class enc))"
      by (elim exE conjE)
    from run run' have same: "bt' = bt" "ct' = ct" by simp_all
    show ?thesis
    proof (intro allI impI)
      fix b m assume b: "b < length gt_boxes" and m: "m < length anchor_boxes"
      note p = pt [rule_format, OF b m, unfolded same]
      show "let deltas = box_target c enc gt_boxes anchor_boxes ! b ! m;
              q = snd (matched c enc gt_boxes anchor_boxes) ! b ! m;
              cls = (if q = 1
                     then matched_gt_cls_ids c enc gt_boxes gt_classes anchor_boxes ! b ! m ! 0
                     else if q = -2 then Fin (ignore_class enc)
                     else Fin (background_class enc))
          in if list_ex is_nan (deltas @ [cls])
             then bt ! b ! m = replicate 4 (Fin (ignore_class enc)) \<and>
                  ct ! b ! m = Fin (ignore_class enc)
             else bt ! b ! m = deltas \<and> ct ! b ! m = cls"
        unfolding Let_def conjunct1 [OF p] conjunct2 [OF p]
        by (simp add: is_nan_def)
    qed
  qed
  have 2: "encode_sample c enc st gt_boxes gt_classes anchor_boxes = (Inr (bt, ct), st') \<longrightarrow>
      list_all (list_all (list_all (\<lambda>v. \<not> is_nan v))) bt \<and>
      list_all (list_all (\<lambda>v. \<not> is_nan v)) ct"
    by (rule impI) (rule encode_sample_no_nan)
  have third: "collaborators_conform c enc gt_boxes gt_classes anchor_boxes \<and>
    encode_sample c enc st gt_boxes gt_classes anchor_boxes = (Inr (bt, ct), st') \<longrightarrow>
      (\<forall>b<length gt_boxes. \<forall>m<length anchor_boxes.
         (let deltas = box_target c enc gt_boxes anchor_boxes ! b ! m;
              q = snd (matched c enc gt_boxes anchor_boxes) ! b ! m;
              cls = (if q = 1
                     then matched_gt_cls_ids c enc gt_boxes gt_classes anchor_boxes ! b ! m ! 0
                     else if q = -2 then Fin (ignore_class enc)
                     else Fin (background_class enc))
          in if list_ex is_nan (deltas @ [cls])
             then bt ! b ! m = replicate 4 (Fin (ignore_class enc)) \<and>
                  ct ! b ! m = Fin (ignore_class enc)
             else bt ! b ! m = deltas \<and> ct ! b ! m = cls))"
  proof (rule impI, elim conjE)
    assume "collaborators_conform c enc gt_boxes gt_classes anchor_boxes"
      and "encode_sample c enc st gt_boxes gt_classes anchor_boxes = (Inr (bt, ct), st')"
    then show "\<forall>b<length gt_boxes. \<forall>m<length anchor_boxes.
         (let deltas = box_target c enc gt_boxes anchor_boxes ! b ! m;
              q = snd (matched c enc gt_boxes anchor_boxes) ! b ! m;
              cls = (if q = 1
                     then matched_gt_cls_ids c enc gt_boxes gt_classes anchor_boxes ! b ! m ! 0
                     else if q = -2 then Fin (ignore_class enc)
                     else Fin (background_class enc))
          in if list_ex is_nan (deltas @ [cls])
             then bt ! b ! m = replicate 4 (Fin (ignore_class enc)) \<and>
                  ct ! b ! m = Fin (ignore_class enc)
             else bt ! b ! m = deltas \<and> ct ! b ! m = cls)"
      by (rule 3)
  qed
  show ?thesis
    by (rule conjI [OF sanitize_closed conjI [OF 2 third]])
qed

theorem nan_rows_become_ignore_witness:
  "sanitize (init_default XYWH (fixed_anchors XYWH [[Fin 0, Fin 0, Fin 10, Fin 10]]))
      [[[Fin 1, NaN, Fin 3, Fin 4, Fin 7], [Fin 1, Fin 2, Fin 3, Fin 4, Fin 7]]]
     = Inr [[[Fin (-2), Fin (-2), Fin (-2), Fin (-2), Fin (-2)], [Fin 1, Fin 2, Fin 3, Fin 4, Fin 7]]] \<and>
   collaborators_conform spec_collab (init_default XYWH (fixed_anchors XYWH [[Fin 0, Fin 0, Fin 10, Fin 10]]))
      [[[Fin (-1), Fin (-1), Fin (-1), Fin (-1)]]] [[[Fin (-1)]]] [[Fin 0, Fin 0, Fin 10, Fin 10]] \<and>
   encode_sample spec_collab (init_default XYWH (fixed_anchors XYWH [[Fin 0, Fin 0, Fin 10, Fin 10]])) []
      [[[Fin (-1), Fin (-1), Fin (-1), Fin (-1)]]] [[[Fin (-1)]]] [[Fin 0, Fin 0, Fin 10, Fin 10]]
     = (Inr ([[[Fin (-2), Fin (-2), Fin (-2), Fin (-2)]]], [[Fin (-2)]]), [([[0]], [[1]])]) \<and>
   box_target spec_collab (init_default XYWH (fixed_anchors XYWH [[Fin 0, Fin 0, Fin 10, Fin 10]]))
      [[[Fin (-1), Fin (-1), Fin (-1), Fin (-1)]]] [[Fin 0, Fin 0, Fin 10, Fin 10]]
     = [[[Fin (-13/2), Fin (-13/2), NaN, NaN]]] \<and>
   (list_all (list_all (list_all (\<lambda>v. \<not> is_nan v))) [[[Fin (-2), Fin (-2), Fin (-2), Fin (-2)]]] \<and>
    list_all (list_all (\<lambda>v. \<not> is_nan v)) [[Fin (-2 :: real)]]) \<and>
   [[[Fin (-2), Fin (-2), Fin (-2), Fin (-2)]]] ! 0 ! 0
     = replicate 4 (Fin (ignore_class (init_default XYWH (fixed_anchors XYWH [[Fin 0, Fin 0, Fin 10, Fin 10]])))) \<and>
   [[Fin (-2)]] ! 0 ! 0
     = Fin (ignore_class (init_default XYWH (fixed_anchors XYWH [[Fin 0, Fin 0, Fin 10, Fin 10]])))"
proof -
  let ?enc = "init_default XYWH (fixed_anchors XYWH [[Fin 0, Fin 0, Fin 10, Fin 10]])"
  let ?gb = "[[[Fin (-1), Fin (-1), Fin (-1), Fin (-1)]]]"
  let ?gc = "[[[Fin (-1)]]]"
  let ?an = "[[Fin 0, Fin 0, Fin 10, Fin 10]]"
  have s: "sanitize ?enc [[[Fin 1, NaN, Fin 3, Fin 4, Fin 7], [Fin 1, Fin 2, Fin 3, Fin 4, Fin 7]]]
     = Inr [[[Fin (-2), Fin (-2), Fin (-2), Fin (-2), Fin (-2)], [Fin 1, Fin 2, Fin 3, Fin 4, Fin 7]]]"
    by (simp add: tensor_defs encoder_defs)
  have h: "collaborators_conform spec_collab ?enc ?gb ?gc ?an"
    by (simp add: tensor_defs encoder_defs spec_defs)
  have run: "encode_sample spec_collab ?enc [] ?gb ?gc ?an
     = (Inr ([[[Fin (-2), Fin (-2), Fin (-2), Fin (-2)]]], [[Fin (-2)]]), [([[0]], [[1]])])"
    by (simp add: tensor_defs encoder_defs spec_defs)
  have d: "box_target spec_collab ?enc ?gb ?an = [[[Fin (-13/2), Fin (-13/2), NaN, NaN]]]"
    by (simp add: tensor_defs encoder_defs spec_defs)
  note t = nan_rows_become_ignore [of ?enc label spec_collab "[]" ?gb ?gc ?an
      "[[[Fin (-2), Fin (-2), Fin (-2), Fin (-2)]]]" "[[Fin (-2)]]" "[([[0]], [[1]])]" for label]
  note nn = mp [OF conjunct1 [OF conjunct2 [OF t]] run]
  have b: "(0::nat) < length ?gb" and m: "(0::nat) < length ?an"
    by simp_all
  note p = mp [OF conjunct2 [OF conjunct2 [OF t]] conjI [OF h run], rule_format, OF b m]
  have row: "[[[Fin (-2), Fin (-2), Fin (-2), Fin (-2)]]] ! 0 ! 0 = replicate 4 (Fin (ignore_class ?enc)) \<and>
             [[Fin (-2)]] ! 0 ! 0 = Fin (ignore_class ?enc)"
    using p unfolding d Let_def by (simp add: is_nan_def)
  show ?thesis
    by (rule conjI [OF s conjI [OF h conjI [OF run conjI [OF d conjI [OF nn row]]]]])
qed

section \<open>Ragged image batches\<close>

text \<open>
  Claim C7. For a ragged image batch \<open>call\<close> answers with the \<open>ValueError\<close>,
  whatever the collaborators, the encoder and the labels are: nothing is densified,
  generated, matched or encoded, no targets are returned and the metric accumulator is
  left as it was. For a dense batch the result of \<open>call\<close> is never this error.
\<close>

theorem ragged_images_rejected:
  "call c enc st (RaggedTensor batch) labels = (Inl ValueError, st) \<and>
   fst (call c enc st (Tensor batch) labels) \<noteq> Inl ValueError"
proof
  show "call c enc st (RaggedTensor batch) labels = (Inl ValueError, st)"
    by (simp add: call_def)
next
  show "fst (call c enc st (Tensor batch) labels) \<noteq> Inl ValueError"
  proof (cases batch)
    case Nil
    then show ?thesis by (simp add: call_def)
  next
    case (Cons image0 rest)
    then show ?thesis
      using encode_sample_error [of c enc st "boxes (to_dense c labels)"
          "class_rank3 (classes (to_dense c labels))" "call_anchors c enc image0" ValueError]
      by (auto simp: call_def Let_def)
  qed
qed

section \<open>The matched-anchor-coverage metric\<close>

text \<open>
  Claim C8. The metric update is diagnostic only. The targets \<open>_encode_sample\<close>
  returns do not depend on the state of the metric accumulator. The accumulator is
  untouched when the encoding fails and otherwise grows by one update, whose recorded
  indicator for sample \<open>b\<close> and ground-truth index \<open>j\<close> (below \<open>n_boxes\<close>) is 1
  exactly when some anchor of that sample has matched index \<open>j\<close>.
\<close>

theorem coverage_metric_is_diagnostic:
  "fst (encode_sample c enc st gt_boxes gt_classes anchor_boxes) =
     fst (encode_sample c enc st' gt_boxes gt_classes anchor_boxes) \<and>
   (case fst (encode_sample c enc st gt_boxes gt_classes anchor_boxes) of
      Inl e \<Rightarrow> snd (encode_sample c enc st gt_boxes gt_classes anchor_boxes) = st
    | Inr targets \<Rightarrow>
        snd (encode_sample c enc st gt_boxes gt_classes anchor_boxes) =
          st @ [(replicate (length gt_boxes) (replicate (n_boxes gt_boxes) 0),
                 cast_int (matches gt_boxes (fst (matched c enc gt_boxes anchor_boxes))))]) \<and>
   (\<forall>b<length matched_gt_idx. \<forall>j<n_boxes gt_boxes.
      (cast_int (matches gt_boxes matched_gt_idx) ! b ! j = 1) =
      (\<exists>m<length (matched_gt_idx ! b). matched_gt_idx ! b ! m = int j))"
  using encode_sample_targets_frame encode_sample_state matches_nth by blast

theorem coverage_metric_is_diagnostic_witness:
  "encode_sample spec_collab (init_default XYXY whole_image_anchor) []
      [[[Fin 0, Fin 0, Fin 1, Fin 1], [Fin 0, Fin 0, Fin 1, Fin 1]],
       [[Fin 0, Fin 0, Fin 1, Fin 1], [Fin (-1), Fin (-1), Fin (-1), Fin (-1)]]]
      [[[Fin 2], [Fin 4]], [[Fin 5], [Fin (-1)]]] [[Fin 0, Fin 0, Fin 1, Fin 1]]
     = (Inr ([[[Fin 0, Fin 0, Fin 0, Fin 0]], [[Fin 0, Fin 0, Fin 0, Fin 0]]], [[Fin 2], [Fin 5]]),
        [([[0, 0], [0, 0]], [[1, 0], [1, 0]])]) \<and>
   fst (encode_sample spec_collab (init_default XYXY whole_image_anchor) [([[1]], [[0]])]
      [[[Fin 0, Fin 0, Fin 1, Fin 1], [Fin 0, Fin 0, Fin 1, Fin 1]],
       [[Fin 0, Fin 0, Fin 1, Fin 1], [Fin (-1), Fin (-1), Fin (-1), Fin (-1)]]]
      [[[Fin 2], [Fin 4]], [[Fin 5], [Fin (-1)]]] [[Fin 0, Fin 0, Fin 1, Fin 1]])
     = Inr ([[[Fin 0, Fin 0, Fin 0, Fin 0]], [[Fin 0, Fin 0, Fin 0, Fin 0]]], [[Fin 2], [Fin 5]]) \<and>
   (1::nat) < length [[0], [0 :: int]] \<and>
   (1::nat) < n_boxes [[[Fin 0, Fin 0, Fin 1, Fin 1], [Fin 0, Fin 0, Fin 1, Fin 1]],
       [[Fin 0, Fin 0, Fin 1, Fin 1], [Fin (-1), Fin (-1), Fin (-1), Fin (-1)]]] \<and>
   cast_int (matches [[[Fin 0, Fin 0, Fin 1, Fin 1], [Fin 0, Fin 0, Fin 1, Fin 1]],
       [[Fin 0, Fin 0, Fin 1, Fin 1], [Fin (-1), Fin (-1), Fin (-1), Fin (-1)]]] [[0], [0]]) ! 1 ! 1 \<noteq> 1 \<and>
   \<not> (\<exists>m<length ([[0], [0 :: int]] ! 1). [[0], [0 :: int]] ! 1 ! m = int 1)"
proof -
  let ?gb = "[[[Fin 0, Fin 0, Fin 1, Fin 1], [Fin 0, Fin 0, Fin 1, Fin 1]],
       [[Fin 0, Fin 0, Fin 1, Fin 1], [Fin (-1), Fin (-1), Fin (-1), Fin (-1)]]]"
  let ?gc = "[[[Fin 2], [Fin 4]], [[Fin 5], [Fin (-1)]]]"
  let ?an = "[[Fin 0, Fin 0, Fin 1, Fin 1]]"
  let ?enc = "init_default XYXY whole_image_anchor"
  have run: "encode_sample spec_collab ?enc [] ?gb ?gc ?an
     = (Inr ([[[Fin 0, Fin 0, Fin 0, Fin 0]], [[Fin 0, Fin 0, Fin 0, Fin 0]]], [[Fin 2], [Fin 5]]),
        [([[0, 0], [0, 0]], [[1, 0], [1, 0]])])"
    by (simp add: tensor_defs encoder_defs spec_defs)
  have n: "n_boxes ?gb = 2"
    by (simp add: n_boxes_def)
  have no: "\<not> (\<exists>m<length ([[0], [0 :: int]] ! 1). [[0], [0 :: int]] ! 1 ! m = int 1)"
    by simp
  note t = coverage_metric_is_diagnostic [of spec_collab ?enc "[]" ?gb ?gc ?an
      "[([[1]], [[0]])]" "[[0], [0]]"]
  note frame = conjunct1 [OF t]
  note pt = conjunct2 [OF conjunct2 [OF t]]
  have b: "(1::nat) < length [[0], [0 :: int]]"
    by simp
  have j: "(1::nat) < n_boxes ?gb"
    by (simp add: n)
  note p11 = pt [rule_format, OF b j]
  have off: "cast_int (matches ?gb [[0], [0]]) ! 1 ! 1 \<noteq> 1"
    using p11 no by (rule ssubst)
  have second: "fst (encode_sample spec_collab ?enc [([[1]], [[0]])] ?gb ?gc ?an)
     = Inr ([[[Fin 0, Fin 0, Fin 0, Fin 0]], [[Fin 0, Fin 0, Fin 0, Fin 0]]], [[Fin 2], [Fin 5]])"
    unfolding frame [symmetric] run by simp
  show ?thesis
    by (rule conjI [OF run conjI [OF second conjI [OF b conjI [OF j conjI [OF off no]]]]])
qed

section \<open>The anchors of a call\<close>

text \<open>
  Claim C10. The anchors of a call are what the anchor generator returns for the shape of
  \<open>images[0]\<close>, and \<open>call\<close> encodes the whole batch against this one set,
  converted to the encoder's format: the rest of the batch does not matter. So the
  generated anchors are the same for first images of one shape. The converted anchors,
  and with them the result of the call, are the same for first images of one shape
  provided \<open>convert_format\<close> reads its image argument for the shape only.
\<close>

theorem anchors_from_first_image:
  "generated_anchors enc image0 =
     concat (map snd (generate (anchor_generator enc) (image_shape image0))) \<and>
   call c enc st (Tensor (image0 # rest)) labels =
     encode_sample c enc st (boxes (to_dense c labels))
       (class_rank3 (classes (to_dense c labels)))
       (convert_format c
          (concat (map snd (generate (anchor_generator enc) (image_shape image0))))
          (generator_format (anchor_generator enc)) (bounding_box_format enc) image0) \<and>
   call c enc st (Tensor (image0 # rest)) labels = call c enc st (Tensor (image0 # rest')) labels \<and>
   (image_shape image0 = image_shape image1 \<longrightarrow>
      generated_anchors enc image0 = generated_anchors enc image1) \<and>
   (reads_shape_only c \<and> image_shape image0 = image_shape image1 \<longrightarrow>
      call_anchors c enc image0 = call_anchors c enc image1 \<and>
      call c enc st (Tensor (image0 # rest)) labels = call c enc st (Tensor (image1 # rest')) labels)"
proof -
  have g: "generated_anchors enc image0 =
     concat (map snd (generate (anchor_generator enc) (image_shape image0)))"
    by (rule generated_anchors_def)
  have 1: "call c enc st (Tensor (i # r)) labels =
     encode_sample c enc st (boxes (to_dense c labels))
       (class_rank3 (classes (to_dense c labels))) (call_anchors c enc i)" for i r
    by (simp add: call_def Let_def)
  have e: "call c enc st (Tensor (image0 # rest)) labels =
     encode_sample c enc st (boxes (to_dense c labels))
       (class_rank3 (classes (to_dense c labels)))
       (convert_format c
          (concat (map snd (generate (anchor_generator enc) (image_shape image0))))
          (generator_format (anchor_generator enc)) (bounding_box_format enc) image0)"
    unfolding 1 call_anchors_def generated_anchors_def ..
  have 2: "generated_anchors enc image0 = generated_anchors enc image1"
    if "image_shape image0 = image_shape image1"
    unfolding generated_anchors_def that ..
  have 3: "call_anchors c enc image0 = call_anchors c enc image1"
    if r: "reads_shape_only c" and s: "image_shape image0 = image_shape image1"
  proof -
    note conv = r [unfolded reads_shape_only_def, rule_format, OF s]
    show ?thesis
      unfolding call_anchors_def 2 [OF s] by (rule conv)
  qed
  have 4: "call c enc st (Tensor (image0 # rest)) labels = call c enc st (Tensor (image1 # rest')) labels"
    if r: "reads_shape_only c" and s: "image_shape image0 = image_shape image1"
    unfolding 1 3 [OF r s] ..
  have a: "call c enc st (Tensor (image0 # rest)) labels = call c enc st (Tensor (image0 # rest')) labels"
    unfolding 1 ..
  have b: "image_shape image0 = image_shape image1 \<longrightarrow>
      generated_anchors enc image0 = generated_anchors enc image1"
    by (rule impI) (rule 2)
  have c: "reads_shape_only c \<and> image_shape image0 = image_shape image1 \<longrightarrow>
      call_anchors c enc image0 = call_anchors c enc image1 \<and>
      call c enc st (Tensor (image0 # rest)) labels = call c enc st (Tensor (image1 # rest')) labels"
  proof (rule impI, elim conjE, rule conjI)
    assume "reads_shape_only c" "image_shape image0 = image_shape image1"
    then show "call_anchors c enc image0 = call_anchors c enc image1" by (rule 3)
  next
    assume "reads_shape_only c" "image_shape image0 = image_shape image1"
    then show "call c enc st (Tensor (image0 # rest)) labels = call c enc st (Tensor (image1 # rest')) labels"
      by (rule 4)
  qed
  show ?thesis
    by (rule conjI [OF g conjI [OF e conjI [OF a conjI [OF b c]]]])
qed

theorem anchors_from_first_image_witness:
  "reads_shape_only spec_collab \<and>
   image_shape dark_2x3 = image_shape bright_2x3 \<and>
   dark_2x3 \<noteq> bright_2x3 \<and>
   image_shape dark_2x3 = [2, 3, 1] \<and>
   generated_anchors (init_default XYWH whole_image_anchor) dark_2x3
     = [[Fin 0, Fin 0, Fin 3, Fin 2]] \<and>
   generated_anchors (init_default XYWH whole_image_anchor) bright_2x3
     = [[Fin 0, Fin 0, Fin 3, Fin 2]] \<and>
   generated_anchors (init_default XYWH whole_image_anchor) one_pixel
     = [[Fin 0, Fin 0, Fin 1, Fin 1]] \<and>
   call_anchors spec_collab (init_default XYWH whole_image_anchor) dark_2x3
     = [[Fin 0, Fin 0, Fin 3, Fin 2]] \<and>
   call_anchors spec_collab (init_default XYWH whole_image_anchor) bright_2x3
     = [[Fin 0, Fin 0, Fin 3, Fin 2]] \<and>
   call spec_collab (init_default XYWH whole_image_anchor) [] (Tensor [dark_2x3, one_pixel])
      \<lparr> boxes = [[[Fin 0, Fin 0, Fin 3, Fin 2]]], classes = Rank2 [[Fin 3]] \<rparr>
     = call spec_collab (init_default XYWH whole_image_anchor) [] (Tensor [bright_2x3])
      \<lparr> boxes = [[[Fin 0, Fin 0, Fin 3, Fin 2]]], classes = Rank2 [[Fin 3]] \<rparr> \<and>
   call spec_collab (init_default XYWH whole_image_anchor) [] (Tensor [dark_2x3, one_pixel])
      \<lparr> boxes = [[[Fin 0, Fin 0, Fin 3, Fin 2]]], classes = Rank2 [[Fin 3]] \<rparr>
     \<noteq> call spec_collab (init_default XYWH whole_image_anchor) [] (Tensor [one_pixel, dark_2x3])
      \<lparr> boxes = [[[Fin 0, Fin 0, Fin 3, Fin 2]]], classes = Rank2 [[Fin 3]] \<rparr>"
proof -
  let ?enc = "init_default XYWH whole_image_anchor"
  let ?labels = "\<lparr> boxes = [[[Fin 0, Fin 0, Fin 3, Fin 2]]], classes = Rank2 [[Fin 3]] \<rparr>"
  have h1: "reads_shape_only spec_collab"
    by (simp add: reads_shape_only_def spec_collab_def spec_convert_format_def)
  have h2: "image_shape dark_2x3 = image_shape bright_2x3"
    by (simp add: image_shape_def dark_2x3_def bright_2x3_def)
  have h3: "dark_2x3 \<noteq> bright_2x3"
    by (simp add: dark_2x3_def bright_2x3_def)
  have sh: "image_shape dark_2x3 = [2, 3, 1]"
    by (simp add: image_shape_def dark_2x3_def)
  have w: "concat (map snd (generate (anchor_generator ?enc) [2, 3, 1])) = [[Fin 0, Fin 0, Fin 3, Fin 2]]"
    by (simp add: init_default_def init_def whole_image_anchor_def)
  note t = anchors_from_first_image [of ?enc dark_2x3 spec_collab "[]" "[one_pixel]" ?labels
      "[]" bright_2x3]
  note g = conjunct1 [OF t]
  have ga: "generated_anchors ?enc dark_2x3 = [[Fin 0, Fin 0, Fin 3, Fin 2]]"
    unfolding g sh by (rule w)
  note rest = conjunct2 [OF conjunct2 [OF conjunct2 [OF t]]]
  note same = mp [OF conjunct1 [OF rest] h2]
  have gb: "generated_anchors ?enc bright_2x3 = [[Fin 0, Fin 0, Fin 3, Fin 2]]"
    using same [symmetric] ga by (rule trans)
  have gp: "generated_anchors ?enc one_pixel = [[Fin 0, Fin 0, Fin 1, Fin 1]]"
    by (simp add: encoder_defs spec_defs)
  note e = mp [OF conjunct2 [OF rest] conjI [OF h1 h2]]
  have ca: "call_anchors spec_collab ?enc dark_2x3 = [[Fin 0, Fin 0, Fin 3, Fin 2]]"
    unfolding call_anchors_def ga
    by (simp add: spec_collab_def spec_convert_format_def init_default_def init_def
        whole_image_anchor_def fl_sub_def)
  have cb: "call_anchors spec_collab ?enc bright_2x3 = [[Fin 0, Fin 0, Fin 3, Fin 2]]"
    using conjunct1 [OF e, symmetric] ca by (rule trans)
  have r1: "call spec_collab ?enc [] (Tensor [dark_2x3, one_pixel]) ?labels
     = (Inr ([[[Fin 0, Fin 0, Fin 0, Fin 0]]], [[Fin 3]]), [([[0]], [[1]])])"
    by (simp add: tensor_defs encoder_defs spec_defs dark_2x3_def)
  have r2: "call spec_collab ?enc [] (Tensor [one_pixel, dark_2x3]) ?labels
     \<noteq> (Inr ([[[Fin 0, Fin 0, Fin 0, Fin 0]]], [[Fin 3]]), [([[0]], [[1]])])"
    by (simp add: tensor_defs encoder_defs spec_defs dark_2x3_def)
  have ne: "call spec_collab ?enc [] (Tensor [dark_2x3, one_pixel]) ?labels
     \<noteq> call spec_collab ?enc [] (Tensor [one_pixel, dark_2x3]) ?labels"
    unfolding r1 using r2 by (rule not_sym)
  show ?thesis
    by (rule conjI [OF h1 conjI [OF h2 conjI [OF h3 conjI [OF sh conjI [OF ga conjI [OF gb
          conjI [OF gp conjI [OF ca conjI [OF cb conjI [OF conjunct2 [OF e] ne]]]]]]]]]])
qed

section \<open>One target row per anchor\<close>

text \<open>
  The collaborators as the specification describes them answer with their documented
  shapes on every ground truth: the matcher with one index and one quality per sample
  and anchor, the gather with one row per index, a padding row where the index is not
  the index of a box, the delta encoder with four deltas per anchor.
\<close>

lemma spec_matched_shape:
  "shape2 (length gt) (length an) (fst (spec_match_boxes m (spec_compute_iou an gt fmt))) \<and>
   shape2 (length gt) (length an) (snd (spec_match_boxes m (spec_compute_iou an gt fmt)))"
  by (simp add: shape2_def spec_match_boxes_def spec_compute_iou_def list_all_iff)

lemma to_center_length: "length (to_center b) = 4"
  by (simp add: to_center_def split: list.splits)

lemma box_delta_length:
  assumes "length variance = 4"
  shows "length (box_delta af bf variance a b) = 4"
proof -
  obtain ax ay aw ah where a: "to_center (to_xyxy af [1, 1, 1] a) = [ax, ay, aw, ah]"
    using to_center_length [of "to_xyxy af [1, 1, 1] a"]
    by (auto simp: length_Suc_conv eval_nat_numeral)
  obtain bx by' bw bh where b: "to_center (to_xyxy bf [1, 1, 1] b) = [bx, by', bw, bh]"
    using to_center_length [of "to_xyxy bf [1, 1, 1] b"]
    by (auto simp: length_Suc_conv eval_nat_numeral)
  show ?thesis
    unfolding box_delta_def a b using assms by simp
qed

lemma spec_gather_outer:
  assumes "length targets = B" "shape2 B M idx"
  shows "length (spec_target_gather w targets idx) = B \<and>
         list_all (\<lambda>s. length s = M) (spec_target_gather w targets idx)"
  using assms
  by (auto simp: spec_target_gather_def shape2_def list_all_iff dest!: set_zip_rightD)

lemma spec_box_target_shape:
  assumes "length variance = 4" "shape2 (length gt) (length an) idx"
  shows "shape3 (length gt) (length an) 4
           (spec_encode_box_to_deltas an (spec_target_gather w gt idx) af bf variance)"
proof -
  note g = spec_gather_outer [OF refl assms(2), of w]
  show ?thesis
    unfolding shape3_def shape2_def spec_encode_box_to_deltas_def
    using g assms(1)
    by (auto simp: list_all_iff box_delta_length dest!: set_zip_leftD)
qed

lemma spec_class_gather_shape:
  assumes "length gc = B" "shape2 B M idx" "list_all (list_all (\<lambda>r. length r = 1)) gc"
  shows "shape3 B M 1 (spec_target_gather 1 gc idx)"
  using assms
  unfolding shape3_def shape2_def spec_target_gather_def
  by (auto simp: list_all_iff set_zip) (meson nth_mem)

lemma dense_classes_shape:
  assumes "labels_well_formed labels"
  shows "length (class_rank3 (classes (spec_to_dense labels))) = length (boxes (spec_to_dense labels)) \<and>
         list_all (list_all (\<lambda>r. length r = 1)) (class_rank3 (classes (spec_to_dense labels)))"
  using assms
  by (auto simp: labels_well_formed_def spec_to_dense_def class_rank3_def expand_dims_last_def
        pad_to_def list_all_iff split: class_tensor.splits)


lemma spec_collab_conforms:
  assumes var: "length (box_variance enc) = 4" and wf: "labels_well_formed labels"
  shows "collaborators_conform spec_collab enc (boxes (spec_to_dense labels))
           (class_rank3 (classes (spec_to_dense labels))) anchors"
proof -
  let ?gb = "boxes (spec_to_dense labels)"
  let ?gc = "class_rank3 (classes (spec_to_dense labels))"
  let ?m = "spec_match_boxes (box_matcher enc) (spec_compute_iou anchors ?gb XYWH)"
  note ms = spec_matched_shape [of ?gb anchors "box_matcher enc" XYWH]
  note i = conjunct1 [OF ms]
  note v = conjunct2 [OF ms]
  note d = dense_classes_shape [OF wf]
  note bt = spec_box_target_shape [OF var i, of 4 "bounding_box_format enc" "bounding_box_format enc"]
  note ct = spec_class_gather_shape [OF conjunct1 [OF d] i conjunct2 [OF d]]
  have m: "matched spec_collab enc ?gb anchors = ?m"
    by (simp add: matched_def spec_collab_def)
  have b: "box_target spec_collab enc ?gb anchors =
             spec_encode_box_to_deltas anchors (spec_target_gather 4 ?gb (fst ?m))
               (bounding_box_format enc) (bounding_box_format enc) (box_variance enc)"
    unfolding box_target_def m by (simp add: spec_collab_def)
  have c: "matched_gt_cls_ids spec_collab enc ?gb ?gc anchors = spec_target_gather 1 ?gc (fst ?m)"
    unfolding matched_gt_cls_ids_def m by (simp add: spec_collab_def)
  show ?thesis
    unfolding collaborators_conform_def Let_def m b c
    by (rule conjI [OF i conjI [OF v conjI [OF bt ct]]])
qed

lemma spec_anchor_count:
  "length (call_anchors spec_collab enc image0) = length (generated_anchors enc image0)"
  by (simp add: call_anchors_def spec_collab_def spec_convert_format_def)

lemma spec_batch_size: "length (boxes (spec_to_dense labels)) = length (boxes labels)"
  by (simp add: spec_to_dense_def)

text \<open>
  Claim C6 speaks of every batch of images. A ragged batch is rejected before anything
  is encoded, and an empty batch has no \<open>images[0]\<close> to generate the anchors from:
  neither returns targets.
\<close>

theorem no_targets_without_first_image:
  "call spec_collab (init_default XYXY whole_image_anchor) [] (RaggedTensor [one_pixel, dark_2x3])
        \<lparr> boxes = [[[Fin 0, Fin 0, Fin 1, Fin 1]], [[Fin 0, Fin 0, Fin 1, Fin 1]]],
          classes = Rank2 [[Fin 2], [Fin 5]] \<rparr>
     = (Inl ValueError, []) \<and>
   call spec_collab (init_default XYXY whole_image_anchor) [] (Tensor [])
        \<lparr> boxes = [], classes = Rank2 [] \<rparr>
     = (Inl OutOfRange, [])"
  by (simp add: call_def)

text \<open>
  Claim C6, amended. For a dense batch with a first image, a box variance of four
  entries and labels of the shapes \<open>call\<close> expects, whatever the number of boxes
  of a sample (none, one or many, padding included) and whatever the boxes are, \<open>call\<close>
  returns one row of four box targets and one class target for every sample and every
  generated anchor: the number of targets of a sample is the number of anchors. The
  collaborators are those of the specification.
\<close>

theorem one_target_row_per_anchor:
  assumes "length (box_variance enc) = 4" and "labels_well_formed labels"
  shows "\<exists>bt ct st'.
           call spec_collab enc st (Tensor (image0 # rest)) labels = (Inr (bt, ct), st') \<and>
           shape3 (length (boxes labels)) (length (generated_anchors enc image0)) 4 bt \<and>
           shape2 (length (boxes labels)) (length (generated_anchors enc image0)) ct"
proof -
  let ?gb = "boxes (spec_to_dense labels)"
  let ?gc = "class_rank3 (classes (spec_to_dense labels))"
  let ?an = "call_anchors spec_collab enc image0"
  have unfold: "call spec_collab enc st (Tensor (image0 # rest)) labels =
     encode_sample spec_collab enc st ?gb ?gc ?an"
    by (simp add: call_def Let_def spec_collab_def)
  note conf = spec_collab_conforms [OF assms, of ?an]
  from encode_sample_conforming [OF conf, of st]
  obtain bt ct st' where
    run: "encode_sample spec_collab enc st ?gb ?gc ?an = (Inr (bt, ct), st')"
    and sb: "shape3 (length ?gb) (length ?an) 4 bt"
    and sc: "shape2 (length ?gb) (length ?an) ct"
    by (elim exE conjE)
  note sb' = sb [unfolded spec_anchor_count spec_batch_size]
  note sc' = sc [unfolded spec_anchor_count spec_batch_size]
  show ?thesis
    unfolding unfold run
    by (rule exI [of _ bt], rule exI [of _ ct], rule exI, rule conjI [OF refl conjI [OF sb' sc']])
qed

theorem one_target_row_per_anchor_witness:
  "length (box_variance (init_default XYXY whole_image_anchor)) = 4 \<and>
   labels_well_formed \<lparr> boxes = [[], []], classes = Rank2 [[], []] \<rparr> \<and>
   call spec_collab (init_default XYXY whole_image_anchor) [] (Tensor [one_pixel, one_pixel])
        \<lparr> boxes = [[], []], classes = Rank2 [[], []] \<rparr>
     = (Inr ([[[Fin (-15), Fin (-15), NInf, NInf]], [[Fin (-15), Fin (-15), NInf, NInf]]],
             [[Fin (-1)], [Fin (-1)]]),
        [([[], []], [[], []])]) \<and>
   shape3 2 1 4 [[[Fin (-15), Fin (-15), NInf, NInf]], [[Fin (-15), Fin (-15), NInf, NInf]]] \<and>
   shape2 2 1 [[Fin (-1)], [Fin (-1)]] \<and>
   labels_well_formed
     \<lparr> boxes = [[[Fin 0, Fin 0, Fin 1, Fin 1], [Fin 0, Fin 0, Fin 1, Fin 1]],
                 [[Fin 0, Fin 0, Fin 1, Fin 1]]],
       classes = Rank2 [[Fin 2, Fin 4], [Fin 5]] \<rparr> \<and>
   call spec_collab (init_default XYXY whole_image_anchor) [] (Tensor [one_pixel, one_pixel])
        \<lparr> boxes = [[[Fin 0, Fin 0, Fin 1, Fin 1], [Fin 0, Fin 0, Fin 1, Fin 1]],
                    [[Fin 0, Fin 0, Fin 1, Fin 1]]],
          classes = Rank2 [[Fin 2, Fin 4], [Fin 5]] \<rparr>
     = (Inr ([[[Fin 0, Fin 0, Fin 0, Fin 0]], [[Fin 0, Fin 0, Fin 0, Fin 0]]], [[Fin 2], [Fin 5]]),
        [([[0, 0], [0, 0]], [[1, 0], [1, 0]])]) \<and>
   shape3 2 1 4 [[[Fin 0, Fin 0, Fin 0, Fin 0]], [[Fin 0, Fin 0, Fin 0, Fin (0::real)]]] \<and>
   shape2 2 1 [[Fin 2], [Fin (5::real)]]"
proof -
  let ?enc = "init_default XYXY whole_image_anchor"
  let ?none = "\<lparr> boxes = [[], []], classes = Rank2 [[], []] \<rparr>"
  let ?many = "\<lparr> boxes = [[[Fin 0, Fin 0, Fin 1, Fin 1], [Fin 0, Fin 0, Fin 1, Fin 1]],
                    [[Fin 0, Fin 0, Fin 1, Fin 1]]],
          classes = Rank2 [[Fin 2, Fin 4], [Fin 5]] \<rparr>"
  have var: "length (box_variance ?enc) = 4"
    by (simp add: init_default_def init_def)
  have M: "length (generated_anchors ?enc one_pixel) = 1"
    by (simp add: encoder_defs spec_defs)
  have wf0: "labels_well_formed ?none"
    by (simp add: labels_well_formed_def)
  have B0: "length (boxes ?none) = 2"
    by simp
  have run0: "call spec_collab ?enc [] (Tensor [one_pixel, one_pixel]) ?none
     = (Inr ([[[Fin (-15), Fin (-15), NInf, NInf]], [[Fin (-15), Fin (-15), NInf, NInf]]],
             [[Fin (-1)], [Fin (-1)]]),
        [([[], []], [[], []])])"
    by (simp add: tensor_defs encoder_defs spec_defs)
  from one_target_row_per_anchor [OF var wf0, of "[]" one_pixel "[one_pixel]"]
  obtain bt ct st' where
    r: "call spec_collab ?enc [] (Tensor [one_pixel, one_pixel]) ?none = (Inr (bt, ct), st')"
    and sb: "shape3 (length (boxes ?none)) (length (generated_anchors ?enc one_pixel)) 4 bt"
    and sc: "shape2 (length (boxes ?none)) (length (generated_anchors ?enc one_pixel)) ct"
    by (elim exE conjE)
  from r [unfolded run0]
  have bt: "bt = [[[Fin (-15), Fin (-15), NInf, NInf]], [[Fin (-15), Fin (-15), NInf, NInf]]]"
    and ct: "ct = [[Fin (-1)], [Fin (-1)]]"
    by simp_all
  note sb0 = sb [unfolded B0 M bt]
  note sc0 = sc [unfolded B0 M ct]
  have wf1: "labels_well_formed ?many"
    by (simp add: labels_well_formed_def)
  have B1: "length (boxes ?many) = 2"
    by simp
  have run1: "call spec_collab ?enc [] (Tensor [one_pixel, one_pixel]) ?many
     = (Inr ([[[Fin 0, Fin 0, Fin 0, Fin 0]], [[Fin 0, Fin 0, Fin 0, Fin 0]]], [[Fin 2], [Fin 5]]),
        [([[0, 0], [0, 0]], [[1, 0], [1, 0]])])"
    by (simp add: tensor_defs encoder_defs spec_defs)
  from one_target_row_per_anchor [OF var wf1, of "[]" one_pixel "[one_pixel]"]
  obtain bu cu su where
    r1: "call spec_collab ?enc [] (Tensor [one_pixel, one_pixel]) ?many = (Inr (bu, cu), su)"
    and tb: "shape3 (length (boxes ?many)) (length (generated_anchors ?enc one_pixel)) 4 bu"
    and tc: "shape2 (length (boxes ?many)) (length (generated_anchors ?enc one_pixel)) cu"
    by (elim exE conjE)
  from r1 [unfolded run1]
  have bu: "bu = [[[Fin 0, Fin 0, Fin 0, Fin 0]], [[Fin 0, Fin 0, Fin 0, Fin 0]]]"
    and cu: "cu = [[Fin 2], [Fin 5]]"
    by simp_all
  note sb1 = tb [unfolded B1 M bu]
  note sc1 = tc [unfolded B1 M cu]
  show ?thesis
    by (rule conjI [OF var conjI [OF wf0 conjI [OF run0 conjI [OF sb0 conjI [OF sc0
          conjI [OF wf1 conjI [OF run1 conjI [OF sb1 sc1]]]]]]]])
qed

section \<open>Ground truth that is all padding\<close>

text \<open>
  Claim C3 says that for ground truth made of \<open>-1\<close> padding only every anchor gets
  the ignore class. With the collaborators as the specification describes them this
  fails in the format \<open>"xyxy"\<close>: the padding box overlaps no anchor, so the matcher's
  quality is negative; its width and height are zero, so the deltas are finite or
  \<open>-\<infinity>\<close> and never NaN; nothing is sanitised and the anchor gets the background
  class.
\<close>

theorem padding_gets_background_class:
  "call spec_collab (init_default XYXY (fixed_anchors XYXY [[Fin 0, Fin 0, Fin 10, Fin 10]])) []
     (Tensor [one_pixel])
     \<lparr> boxes = [[[Fin (-1), Fin (-1), Fin (-1), Fin (-1)]]], classes = Rank2 [[Fin (-1)]] \<rparr>
     = (Inr ([[[Fin (-6), Fin (-6), NInf, NInf]]], [[Fin (-1)]]), [([[0]], [[1]])]) \<and>
   ignore_class (init_default XYXY (fixed_anchors XYXY [[Fin 0, Fin 0, Fin 10, Fin 10]])) = -2 \<and>
   background_class (init_default XYXY (fixed_anchors XYXY [[Fin 0, Fin 0, Fin 10, Fin 10]])) = -1 \<and>
   Fin (-1) \<noteq> Fin (ignore_class (init_default XYXY (fixed_anchors XYXY [[Fin 0, Fin 0, Fin 10, Fin 10]])))"
  by (simp add: tensor_defs encoder_defs spec_defs)

text \<open>
  Claim C3, amended. For any ground truth, padding included, and collaborators that
  answer with their documented shapes, \<open>_encode_sample\<close> returns targets none of
  which is NaN. An anchor gets the ignore class when the matcher's quality for it is -2
  or its target row held a NaN before sanitising (a NaN delta, or a NaN class of a
  positive match); it gets the background class when its quality is neither 1 nor -2
  and its deltas hold no NaN.
\<close>

theorem padding_targets_never_nan:
  assumes "collaborators_conform c enc gt_boxes gt_classes anchor_boxes"
  shows "\<exists>bt ct st'.
           encode_sample c enc st gt_boxes gt_classes anchor_boxes = (Inr (bt, ct), st') \<and>
           list_all (list_all (list_all (\<lambda>v. \<not> is_nan v))) bt \<and>
           list_all (list_all (\<lambda>v. \<not> is_nan v)) ct \<and>
           (\<forall>b<length gt_boxes. \<forall>m<length anchor_boxes.
              (snd (matched c enc gt_boxes anchor_boxes) ! b ! m = -2 \<or>
               list_ex is_nan (box_target c enc gt_boxes anchor_boxes ! b ! m) \<or>
               (snd (matched c enc gt_boxes anchor_boxes) ! b ! m = 1 \<and>
                is_nan (matched_gt_cls_ids c enc gt_boxes gt_classes anchor_boxes ! b ! m ! 0))
                 \<longrightarrow> ct ! b ! m = Fin (ignore_class enc)) \<and>
              (snd (matched c enc gt_boxes anchor_boxes) ! b ! m \<noteq> 1 \<and>
               snd (matched c enc gt_boxes anchor_boxes) ! b ! m \<noteq> -2 \<and>
               \<not> list_ex is_nan (box_target c enc gt_boxes anchor_boxes ! b ! m)
                 \<longrightarrow> ct ! b ! m = Fin (background_class enc)))"
proof -
  from encode_sample_conforming [OF assms, of st]
  obtain bt ct where
    run: "encode_sample c enc st gt_boxes gt_classes anchor_boxes =
          (Inr (bt, ct),
           update_state st (replicate (length gt_boxes) (replicate (n_boxes gt_boxes) 0))
             (cast_int (matches gt_boxes (fst (matched c enc gt_boxes anchor_boxes)))))"
    and pt: "\<forall>b<length gt_boxes. \<forall>m<length anchor_boxes.
              bt ! b ! m =
                (if list_ex is_nan (box_target c enc gt_boxes anchor_boxes ! b ! m) \<or>
                    (snd (matched c enc gt_boxes anchor_boxes) ! b ! m = 1 \<and>
                     is_nan (matched_gt_cls_ids c enc gt_boxes gt_classes anchor_boxes ! b ! m ! 0))
                 then replicate 4 (Fin (ignore_class enc))
                 else box_target c enc gt_boxes anchor_boxes ! b ! m) \<and>
              ct ! b ! m =
                (if list_ex is_nan (box_target c enc gt_boxes anchor_boxes ! b ! m) \<or>
                    (snd (matched c enc gt_boxes anchor_boxes) ! b ! m = 1 \<and>
                     is_nan (matched_gt_cls_ids c enc gt_boxes gt_classes anchor_boxes ! b ! m ! 0))
                 then Fin (ignore_class enc)
                 else if snd (matched c enc gt_boxes anchor_boxes) ! b ! m = 1
                      then matched_gt_cls_ids c enc gt_boxes gt_classes anchor_boxes ! b ! m ! 0
                 else if snd (matched c enc gt_boxes anchor_boxes) ! b ! m = -2
                      then Fin (ignore_class enc)
                 else Fin (background_class enc))"
    by (elim exE conjE)
  note nn = encode_sample_no_nan [OF run]
  have cases: "\<forall>b<length gt_boxes. \<forall>m<length anchor_boxes.
              (snd (matched c enc gt_boxes anchor_boxes) ! b ! m = -2 \<or>
               list_ex is_nan (box_target c enc gt_boxes anchor_boxes ! b ! m) \<or>
               (snd (matched c enc gt_boxes anchor_boxes) ! b ! m = 1 \<and>
                is_nan (matched_gt_cls_ids c enc gt_boxes gt_classes anchor_boxes ! b ! m ! 0))
                 \<longrightarrow> ct ! b ! m = Fin (ignore_class enc)) \<and>
              (snd (matched c enc gt_boxes anchor_boxes) ! b ! m \<noteq> 1 \<and>
               snd (matched c enc gt_boxes anchor_boxes) ! b ! m \<noteq> -2 \<and>
               \<not> list_ex is_nan (box_target c enc gt_boxes anchor_boxes ! b ! m)
                 \<longrightarrow> ct ! b ! m = Fin (background_class enc))"
  proof (intro allI impI)
    fix b m assume b: "b < length gt_boxes" and m: "m < length anchor_boxes"
    note p = conjunct2 [OF pt [rule_format, OF b m]]
    show "(snd (matched c enc gt_boxes anchor_boxes) ! b ! m = -2 \<or>
               list_ex is_nan (box_target c enc gt_boxes anchor_boxes ! b ! m) \<or>
               (snd (matched c enc gt_boxes anchor_boxes) ! b ! m = 1 \<and>
                is_nan (matched_gt_cls_ids c enc gt_boxes gt_classes anchor_boxes ! b ! m ! 0))
                 \<longrightarrow> ct ! b ! m = Fin (ignore_class enc)) \<and>
              (snd (matched c enc gt_boxes anchor_boxes) ! b ! m \<noteq> 1 \<and>
               snd (matched c enc gt_boxes anchor_boxes) ! b ! m \<noteq> -2 \<and>
               \<not> list_ex is_nan (box_target c enc gt_boxes anchor_boxes ! b ! m)
                 \<longrightarrow> ct ! b ! m = Fin (background_class enc))"
      unfolding p by simp
  qed
  show ?thesis
    by (rule exI [of _ bt], rule exI [of _ ct], rule exI,
        rule conjI [OF run conjI [OF conjunct1 [OF nn] conjI [OF conjunct2 [OF nn] cases]]])
qed

theorem padding_targets_never_nan_witness:
  "collaborators_conform spec_collab (init_default XYWH (fixed_anchors XYWH [[Fin 0, Fin 0, Fin 10, Fin 10]]))
     [[[Fin (-1), Fin (-1), Fin (-1), Fin (-1)]]] [[[Fin (-1)]]] [[Fin 0, Fin 0, Fin 10, Fin 10]] \<and>
   encode_sample spec_collab (init_default XYWH (fixed_anchors XYWH [[Fin 0, Fin 0, Fin 10, Fin 10]])) []
     [[[Fin (-1), Fin (-1), Fin (-1), Fin (-1)]]] [[[Fin (-1)]]] [[Fin 0, Fin 0, Fin 10, Fin 10]]
     = (Inr ([[[Fin (-2), Fin (-2), Fin (-2), Fin (-2)]]], [[Fin (-2)]]), [([[0]], [[1]])]) \<and>
   snd (matched spec_collab (init_default XYWH (fixed_anchors XYWH [[Fin 0, Fin 0, Fin 10, Fin 10]]))
     [[[Fin (-1), Fin (-1), Fin (-1), Fin (-1)]]] [[Fin 0, Fin 0, Fin 10, Fin 10]]) = [[-1]] \<and>
   box_target spec_collab (init_default XYWH (fixed_anchors XYWH [[Fin 0, Fin 0, Fin 10, Fin 10]]))
     [[[Fin (-1), Fin (-1), Fin (-1), Fin (-1)]]] [[Fin 0, Fin 0, Fin 10, Fin 10]]
     = [[[Fin (-13/2), Fin (-13/2), NaN, NaN]]] \<and>
   [[Fin (-2)]] ! 0 ! 0
     = Fin (ignore_class (init_default XYWH (fixed_anchors XYWH [[Fin 0, Fin 0, Fin 10, Fin 10]])))"
proof -
  let ?enc = "init_default XYWH (fixed_anchors XYWH [[Fin 0, Fin 0, Fin 10, Fin 10]])"
  let ?gb = "[[[Fin (-1), Fin (-1), Fin (-1), Fin (-1)]]]"
  let ?gc = "[[[Fin (-1)]]]"
  let ?an = "[[Fin 0, Fin 0, Fin 10, Fin 10]]"
  have h: "collaborators_conform spec_collab ?enc ?gb ?gc ?an"
    by (simp add: tensor_defs encoder_defs spec_defs)
  have run: "encode_sample spec_collab ?enc [] ?gb ?gc ?an
     = (Inr ([[[Fin (-2), Fin (-2), Fin (-2), Fin (-2)]]], [[Fin (-2)]]), [([[0]], [[1]])])"
    by (simp add: tensor_defs encoder_defs spec_defs)
  have q: "snd (matched spec_collab ?enc ?gb ?an) = [[-1]]"
    by (simp add: tensor_defs encoder_defs spec_defs)
  have d: "box_target spec_collab ?enc ?gb ?an = [[[Fin (-13/2), Fin (-13/2), NaN, NaN]]]"
    by (simp add: tensor_defs encoder_defs spec_defs)
  from padding_targets_never_nan [OF h, of "[]"]
  obtain bt ct st' where
    r: "encode_sample spec_collab ?enc [] ?gb ?gc ?an = (Inr (bt, ct), st')"
    and cases: "\<forall>b<length ?gb. \<forall>m<length ?an.
              (snd (matched spec_collab ?enc ?gb ?an) ! b ! m = -2 \<or>
               list_ex is_nan (box_target spec_collab ?enc ?gb ?an ! b ! m) \<or>
               (snd (matched spec_collab ?enc ?gb ?an) ! b ! m = 1 \<and>
                is_nan (matched_gt_cls_ids spec_collab ?enc ?gb ?gc ?an ! b ! m ! 0))
                 \<longrightarrow> ct ! b ! m = Fin (ignore_class ?enc)) \<and>
              (snd (matched spec_collab ?enc ?gb ?an) ! b ! m \<noteq> 1 \<and>
               snd (matched spec_collab ?enc ?gb ?an) ! b ! m \<noteq> -2 \<and>
               \<not> list_ex is_nan (box_target spec_collab ?enc ?gb ?an ! b ! m)
                 \<longrightarrow> ct ! b ! m = Fin (background_class ?enc))"
    by (elim exE conjE)
  from r [unfolded run] have ct: "ct = [[Fin (-2)]]"
    by simp
  have b: "(0::nat) < length ?gb" and m: "(0::nat) < length ?an"
    by simp_all
  have nanrow: "snd (matched spec_collab ?enc ?gb ?an) ! 0 ! 0 = -2 \<or>
               list_ex is_nan (box_target spec_collab ?enc ?gb ?an ! 0 ! 0) \<or>
               (snd (matched spec_collab ?enc ?gb ?an) ! 0 ! 0 = 1 \<and>
                is_nan (matched_gt_cls_ids spec_collab ?enc ?gb ?gc ?an ! 0 ! 0 ! 0))"
    unfolding d by (simp add: is_nan_def)
  note ig = mp [OF conjunct1 [OF cases [rule_format, OF b m]] nanrow]
  note ig' = ig [unfolded ct]
  show ?thesis
    by (rule conjI [OF h conjI [OF run conjI [OF q conjI [OF d ig']]]])
qed

section \<open>The box format of the IoU\<close>

text \<open>
  Claim C4 says that the IoU is computed in the encoder's configured format, the format
  the anchors are converted to and the ground truth is given in. \<open>_encode_sample\<close>
  passes the literal \<open>"xywh"\<close> instead: its result is the same whatever the collaborator
  would do with another format. With anchor and ground truth in \<open>"xyxy"\<close>, the anchor
  \<open>[10, 10, 20, 20]\<close> and the box \<open>[15, 10, 25, 20]\<close> of class 3 overlap by a third,
  below the negative threshold 0.4; read as \<open>"xywh"\<close> they overlap by a half, the
  positive threshold, and the anchor is encoded as a positive match of class 3 instead
  of background.
\<close>

theorem iou_ignores_configured_format:
  "(\<forall>c enc st gt_boxes gt_classes anchor_boxes.
      encode_sample c enc st gt_boxes gt_classes anchor_boxes =
      encode_sample (c\<lparr>compute_iou := \<lambda>a g f. compute_iou c a g XYWH\<rparr>) enc st
        gt_boxes gt_classes anchor_boxes) \<and>
   spec_compute_iou [[Fin 10, Fin 10, Fin 20, Fin 20]] [[[Fin 15, Fin 10, Fin 25, Fin 20]]] XYWH
     = [[[Fin (1/2)]]] \<and>
   spec_compute_iou [[Fin 10, Fin 10, Fin 20, Fin 20]] [[[Fin 15, Fin 10, Fin 25, Fin 20]]] XYXY
     = [[[Fin (1/3)]]] \<and>
   call spec_collab (init_default XYXY (fixed_anchors XYXY [[Fin 10, Fin 10, Fin 20, Fin 20]])) []
     (Tensor [one_pixel])
     \<lparr> boxes = [[[Fin 15, Fin 10, Fin 25, Fin 20]]], classes = Rank2 [[Fin 3]] \<rparr>
     = (Inr ([[[Fin 5, Fin 0, Fin 0, Fin 0]]], [[Fin 3]]), [([[0]], [[1]])]) \<and>
   call (spec_collab\<lparr>compute_iou := \<lambda>a g f. spec_compute_iou a g XYXY\<rparr>)
     (init_default XYXY (fixed_anchors XYXY [[Fin 10, Fin 10, Fin 20, Fin 20]])) []
     (Tensor [one_pixel])
     \<lparr> boxes = [[[Fin 15, Fin 10, Fin 25, Fin 20]]], classes = Rank2 [[Fin 3]] \<rparr>
     = (Inr ([[[Fin 5, Fin 0, Fin 0, Fin 0]]], [[Fin (-1)]]), [([[0]], [[1]])])"
proof -
  have 1: "spec_compute_iou [[Fin 10, Fin 10, Fin 20, Fin 20]] [[[Fin 15, Fin 10, Fin 25, Fin 20]]] XYWH
     = [[[Fin (1/2)]]]"
    by (simp add: spec_defs is_nan_def fl_equal_def)
  have 2: "spec_compute_iou [[Fin 10, Fin 10, Fin 20, Fin 20]] [[[Fin 15, Fin 10, Fin 25, Fin 20]]] XYXY
     = [[[Fin (1/3)]]]"
    by (simp add: spec_defs is_nan_def fl_equal_def)
  have 3: "call spec_collab (init_default XYXY (fixed_anchors XYXY [[Fin 10, Fin 10, Fin 20, Fin 20]])) []
     (Tensor [one_pixel])
     \<lparr> boxes = [[[Fin 15, Fin 10, Fin 25, Fin 20]]], classes = Rank2 [[Fin 3]] \<rparr>
     = (Inr ([[[Fin 5, Fin 0, Fin 0, Fin 0]]], [[Fin 3]]), [([[0]], [[1]])])"
    by (simp add: tensor_defs encoder_defs spec_defs)
  have 4: "call (spec_collab\<lparr>compute_iou := \<lambda>a g f. spec_compute_iou a g XYXY\<rparr>)
     (init_default XYXY (fixed_anchors XYXY [[Fin 10, Fin 10, Fin 20, Fin 20]])) []
     (Tensor [one_pixel])
     \<lparr> boxes = [[[Fin 15, Fin 10, Fin 25, Fin 20]]], classes = Rank2 [[Fin 3]] \<rparr>
     = (Inr ([[[Fin 5, Fin 0, Fin 0, Fin 0]]], [[Fin (-1)]]), [([[0]], [[1]])])"
    by (simp add: tensor_defs encoder_defs spec_defs)
  have 0: "\<forall>c enc st gt_boxes gt_classes anchor_boxes.
      encode_sample c enc st gt_boxes gt_classes anchor_boxes =
      encode_sample (c\<lparr>compute_iou := \<lambda>a g f. compute_iou c a g XYWH\<rparr>) enc st
        gt_boxes gt_classes anchor_boxes"
    by (intro allI) (rule encode_sample_iou_format)
  show ?thesis
    by (rule conjI [OF 0 conjI [OF 1 conjI [OF 2 conjI [OF 3 4]]]])
qed

section \<open>The random flip layer\<close>


lemma image_width_flip: "image_width (flip_left_right img) = image_width img"
  by (cases img) (simp_all add: image_width_def flip_left_right_def)

lemma flip_left_right_twice: "flip_left_right (flip_left_right img) = img"
  by (simp add: flip_left_right_def o_def)

lemma flip_box_horizontal_twice: "flip_box_horizontal w (flip_box_horizontal w b) = b"
  by (cases b) simp

lemma random_flip_no_decision:
  assumes "\<forall>u\<in>set rng. \<not> decide rate u"
    and "random_flip decide rate m rng ss = Some out"
  shows "out = ss"
  using assms
proof (induction ss arbitrary: rng out)
  case Nil
  then show ?case by simp
next
  case (Cons s ss)
  from Cons.prems(2) obtain dh rng1 dv rng2 out' where
    h: "draw_axis decide rate (enabled_horizontal m) rng = Some (dh, rng1)"
    and v: "draw_axis decide rate (enabled_vertical m) rng1 = Some (dv, rng2)"
    and r: "random_flip decide rate m rng2 ss = Some out'"
    and o: "out = augment dh dv s # out'"
    by (auto split: option.splits)
  have step: "\<not> d \<and> (\<forall>u\<in>set g'. \<not> decide rate u)"
    if "draw_axis decide rate e g = Some (d, g')" "\<forall>u\<in>set g. \<not> decide rate u" for e g d g'
    using that by (auto simp: draw_axis_def split: if_splits list.splits)
  from step [OF h Cons.prems(1)] have dh: "\<not> dh" and g1: "\<forall>u\<in>set rng1. \<not> decide rate u"
    by simp_all
  from step [OF v g1] have dv: "\<not> dv" and g2: "\<forall>u\<in>set rng2. \<not> decide rate u"
    by simp_all
  from Cons.IH [OF g2 r] have "out' = ss" .
  with o dh dv show ?case by (simp add: augment_def)
qed

lemma random_flip_images_no_decision:
  assumes "\<forall>u\<in>set rng. \<not> decide (1/2) u"
    and "random_flip_images decide m rng inp = Some out"
  shows "out = inp"
proof -
  from assms(2) obtain ss where
    r: "random_flip decide (1/2) m rng (map image_only inp) = Some ss" and o: "out = map image ss"
    by (auto simp: random_flip_images_def)
  from random_flip_no_decision [OF assms(1) r] have "ss = map image_only inp" .
  with o show ?thesis by (simp add: image_only_def o_def)
qed

text \<open>
  Claim C9. The horizontal flip of a sample (image, boxes and mask together) is an
  involution, and so are its parts: mirroring the width axis of an image, and the box
  transform that replaces an x coordinate by the image width minus that coordinate and
  leaves the y coordinates alone. Coordinates are exact numbers here. The two box
  transforms together give the boxes \<open>test_augment_bounding_box_batched_input\<close>
  expects for its 20 by 20 image.
\<close>

theorem horizontal_flip_involution:
  "flip_horizontal (flip_horizontal s) = s \<and>
   flip_box_horizontal w (flip_box_horizontal w b) = b \<and>
   flip_left_right (flip_left_right img) = img \<and>
   map (\<lambda>b. flip_box_vertical 20 (flip_box_horizontal 20 b)) [(0, 0, 10, 10), (4, 4, 12, 12)]
     = [(10, 10, 20, 20), (8, 8, 16, 16)]"
proof -
  have boxes: "map (flip_box_horizontal v) (map (flip_box_horizontal v) bs) = bs" for v bs
    by (induction bs) (simp_all add: flip_box_horizontal_twice)
  have 1: "flip_horizontal (flip_horizontal s) = s"
    by (cases s) (simp add: flip_horizontal_def image_width_flip flip_left_right_twice boxes
        del: map_map)
  have 4: "map (\<lambda>b. flip_box_vertical 20 (flip_box_horizontal 20 b)) [(0, 0, 10, 10), (4, 4, 12, 12)]
     = [(10, 10, 20, 20), (8, 8, 16, 16)]"
    by simp
  show ?thesis
    by (rule conjI [OF 1 conjI [OF flip_box_horizontal_twice conjI [OF flip_left_right_twice 4]]])
qed


text \<open>
  Whatever the rule that turns a draw into a decision: if the layer passes
  \<open>test_horizontal_flip\<close> or \<open>test_flip_both\<close> on a batch the flip changes, then
  a draw of 0.6 at the default rate 0.5 flips.
\<close>

lemma passing_rule_flips_above_half:
  "(test_horizontal_flip (random_flip_images decide) inp \<and> np_flip_axis2 inp \<noteq> inp
      \<longrightarrow> decide (1/2) (6/10)) \<and>
   (test_flip_both (random_flip_images decide) inp' \<and> np_flip_axis1 (np_flip_axis2 inp') \<noteq> inp'
      \<longrightarrow> decide (1/2) (6/10))"
proof (intro conjI impI; elim conjE)
  assume t: "test_horizontal_flip (random_flip_images decide) inp" and ne: "np_flip_axis2 inp \<noteq> inp"
  show "decide (1/2) (6/10)"
  proof (rule ccontr)
    assume n: "\<not> decide (1/2) (6/10)"
    then have all: "\<forall>u\<in>set [6/10, 6/10]. \<not> decide (1/2) u" by simp
    from t have "random_flip_images decide Horizontal [6/10, 6/10] inp = Some (np_flip_axis2 inp)"
      by (simp add: test_horizontal_flip_def Let_def)
    from random_flip_images_no_decision [OF all this] ne show False by simp
  qed
next
  assume t: "test_flip_both (random_flip_images decide) inp'"
    and ne: "np_flip_axis1 (np_flip_axis2 inp') \<noteq> inp'"
  show "decide (1/2) (6/10)"
  proof (rule ccontr)
    assume n: "\<not> decide (1/2) (6/10)"
    then have all: "\<forall>u\<in>set [6/10, 6/10, 6/10, 6/10]. \<not> decide (1/2) u" by simp
    from t have "random_flip_images decide Horizontal_and_vertical [6/10, 6/10, 6/10, 6/10] inp'
                   = Some (np_flip_axis1 (np_flip_axis2 inp'))"
      by (simp add: test_flip_both_def Let_def)
    from random_flip_images_no_decision [OF all this] ne show False by simp
  qed
qed








end
